theory Spec2Isabelle
  imports Main
begin

section \<open>The DOM as the modal component sees it\<close>

text \<open>
  The component of \<^verbatim>\<open>src/components/modal/index.ts\<close> works on DOM nodes by reference.
  Nodes live in a store indexed by references; function objects (event listeners) are
  compared by identity, so they are references too. JavaScript numbers that hold pixel
  coordinates are integers here; \<open>None\<close> stands for \<^verbatim>\<open>undefined\<close> or \<^verbatim>\<open>NaN\<close>.
\<close>

type_synonym ref = nat
type_synonym fn_ref = nat
type_synonym number = "int option"

datatype error = TypeError | SyntaxError | InvalidCharacterError

text \<open>A registered listener: event type, callback, capture flag.\<close>

type_synonym listener = "string \<times> fn_ref \<times> bool"

record element =
  classList :: "string list"
  attributes :: "string \<rightharpoonup> string"
  style :: "string \<rightharpoonup> string"
  listeners :: "listener list"
  clientWidth :: int
  clientHeight :: int

datatype hook = OnShow | OnHide | OnToggle

text \<open>
  A callback of the options object: the empty arrow function of \<^verbatim>\<open>Default\<close>, or a
  function supplied by the caller. Callbacks are opaque: calling one is recorded in the
  log \<open>calls\<close> and has no other effect on the model.
\<close>

datatype callback = EmptyFn | UserFn nat

text \<open>What the console receives: \<^verbatim>\<open>console.log\<close> of a text or of a node, \<^verbatim>\<open>console.error\<close> of a text.\<close>

datatype console_entry = Log string | LogNode ref | Error string

text \<open>
  The environment: the element store, the parent of each node (\<open>None\<close> for a node
  that has none), \<^verbatim>\<open>document.body\<close>, the listeners of
  \<^verbatim>\<open>document\<close>, the elements of the document that carry the attribute
  \<^verbatim>\<open>modal-backdrop\<close> in document order (what \<^verbatim>\<open>document.querySelector('[modal-backdrop]')\<close>
  searches), the allocators of fresh nodes and function objects, the query functions of
  the platform, the log of callback invocations and the console.
\<close>

record env =
  elems :: "ref \<Rightarrow> element"
  parentNode :: "ref \<Rightarrow> ref option"
  body :: ref
  document_listeners :: "listener list"
  backdrops :: "ref list"
  next_ref :: ref
  next_fn :: fn_ref
  querySelector :: "ref \<Rightarrow> string \<Rightarrow> error + ref option"
  querySelectorAll :: "string \<Rightarrow> ref list"
  getElementById :: "string \<Rightarrow> ref option"
  calls :: "(hook \<times> callback) list"
  console :: "console_entry list"

definition upd_elem :: "ref \<Rightarrow> (element \<Rightarrow> element) \<Rightarrow> env \<Rightarrow> env" where
  "upd_elem r f e = e\<lparr>elems := (elems e)(r := f (elems e r))\<rparr>"

subsection \<open>Token lists, attributes, listeners\<close>

text \<open>\<^verbatim>\<open>classList.add(c)\<close> appends a token that is absent; \<^verbatim>\<open>classList.remove(c)\<close> deletes it.\<close>

definition classList_add :: "string \<Rightarrow> element \<Rightarrow> element" where
  "classList_add c el =
     (if c \<in> set (classList el) then el else el\<lparr>classList := classList el @ [c]\<rparr>)"

definition classList_remove :: "string \<Rightarrow> element \<Rightarrow> element" where
  "classList_remove c el = el\<lparr>classList := removeAll c (classList el)\<rparr>"

definition ascii_whitespace :: "char \<Rightarrow> bool" where
  "ascii_whitespace c = (c \<in> set [CHR 0x09, CHR 0x0A, CHR 0x0C, CHR 0x0D, CHR 0x20])"

text \<open>
  \<^verbatim>\<open>classList.add(...tokens)\<close> validates every token before it adds any: an empty
  token is a SyntaxError, one with whitespace an InvalidCharacterError.
\<close>

fun token_error :: "string list \<Rightarrow> error option" where
  "token_error [] = None"
| "token_error (t # ts) =
     (if t = [] then Some SyntaxError
      else if list_ex ascii_whitespace t then Some InvalidCharacterError
      else token_error ts)"

definition classList_add_all :: "string list \<Rightarrow> element \<Rightarrow> error + element" where
  "classList_add_all ts el =
     (case token_error ts of
        Some err \<Rightarrow> Inl err
      | None \<Rightarrow> Inr (fold classList_add ts el))"

text \<open>\<^verbatim>\<open>s.split(' ')\<close>: the pieces between single spaces, empty pieces included.\<close>

fun split_space :: "string \<Rightarrow> string list" where
  "split_space [] = [[]]"
| "split_space (c # cs) =
     (if c = CHR '' '' then [] # split_space cs
      else (case split_space cs of
              [] \<Rightarrow> [[c]]
            | t # ts \<Rightarrow> (c # t) # ts))"

definition setAttribute :: "string \<Rightarrow> string \<Rightarrow> element \<Rightarrow> element" where
  "setAttribute n v el = el\<lparr>attributes := (attributes el)(n \<mapsto> v)\<rparr>"

definition removeAttribute :: "string \<Rightarrow> element \<Rightarrow> element" where
  "removeAttribute n el = el\<lparr>attributes := (attributes el)(n := None)\<rparr>"

definition getAttribute :: "env \<Rightarrow> ref \<Rightarrow> string \<Rightarrow> string option" where
  "getAttribute e r n = attributes (elems e r) n"

text \<open>
  \<^verbatim>\<open>addEventListener\<close> ignores a listener that is registered already with the same type,
  callback and capture flag; \<^verbatim>\<open>removeEventListener\<close> removes exactly that triple, and does
  nothing for a callback that is \<^verbatim>\<open>undefined\<close>.
\<close>

definition add_listener :: "listener \<Rightarrow> listener list \<Rightarrow> listener list" where
  "add_listener l ls = (if l \<in> set ls then ls else ls @ [l])"

definition remove_listener :: "string \<Rightarrow> fn_ref option \<Rightarrow> bool \<Rightarrow> listener list \<Rightarrow> listener list" where
  "remove_listener ty cb cap ls =
     (case cb of None \<Rightarrow> ls | Some f \<Rightarrow> removeAll (ty, f, cap) ls)"

definition addEventListener :: "string \<Rightarrow> fn_ref \<Rightarrow> bool \<Rightarrow> element \<Rightarrow> element" where
  "addEventListener ty f cap el = el\<lparr>listeners := add_listener (ty, f, cap) (listeners el)\<rparr>"

definition removeEventListener :: "string \<Rightarrow> fn_ref option \<Rightarrow> bool \<Rightarrow> element \<Rightarrow> element" where
  "removeEventListener ty cb cap el = el\<lparr>listeners := remove_listener ty cb cap (listeners el)\<rparr>"

definition blank_element :: element where
  "blank_element = \<lparr>classList = [], attributes = Map.empty, style = Map.empty,
     listeners = [], clientWidth = 0, clientHeight = 0\<rparr>"

section \<open>Options\<close>

record ModalOptions =
  placement :: string
  backdropClasses :: string
  backdrop :: string
  closable :: bool
  onHide :: callback
  onShow :: callback
  onToggle :: callback

text \<open>An options object as a caller passes it: a key is present (\<open>Some\<close>) or absent.\<close>

record PartialOptions =
  placement_key :: "string option"
  backdropClasses_key :: "string option"
  backdrop_key :: "string option"
  closable_key :: "bool option"
  onHide_key :: "callback option"
  onShow_key :: "callback option"
  onToggle_key :: "callback option"

definition Default :: ModalOptions where
  "Default = \<lparr>placement = ''center'',
     backdropClasses = ''bg-black bg-opacity-30 fixed inset-0 z-40'',
     backdrop = ''dynamic'', closable = True,
     onHide = EmptyFn, onShow = EmptyFn, onToggle = EmptyFn\<rparr>"

definition MinResizeWidth :: int where "MinResizeWidth = 200"
definition MinResizeHeight :: int where "MinResizeHeight = 100"

text \<open>The object spread \<^verbatim>\<open>{ ...d, ...options }\<close>: a key present in \<open>options\<close> wins.\<close>

definition spread :: "ModalOptions \<Rightarrow> PartialOptions \<Rightarrow> ModalOptions" where
  "spread d p = \<lparr>
     placement = (case placement_key p of None \<Rightarrow> placement d | Some v \<Rightarrow> v),
     backdropClasses = (case backdropClasses_key p of None \<Rightarrow> backdropClasses d | Some v \<Rightarrow> v),
     backdrop = (case backdrop_key p of None \<Rightarrow> backdrop d | Some v \<Rightarrow> v),
     closable = (case closable_key p of None \<Rightarrow> closable d | Some v \<Rightarrow> v),
     onHide = (case onHide_key p of None \<Rightarrow> onHide d | Some v \<Rightarrow> v),
     onShow = (case onShow_key p of None \<Rightarrow> onShow d | Some v \<Rightarrow> v),
     onToggle = (case onToggle_key p of None \<Rightarrow> onToggle d | Some v \<Rightarrow> v)\<rparr>"

text \<open>\<^verbatim>\<open>Default\<close> seen as an argument: every key present.\<close>

definition as_partial :: "ModalOptions \<Rightarrow> PartialOptions" where
  "as_partial d = \<lparr>placement_key = Some (placement d),
     backdropClasses_key = Some (backdropClasses d),
     backdrop_key = Some (backdrop d), closable_key = Some (closable d),
     onHide_key = Some (onHide d), onShow_key = Some (onShow d),
     onToggle_key = Some (onToggle d)\<rparr>"

definition no_options :: PartialOptions where
  "no_options = \<lparr>placement_key = None, backdropClasses_key = None, backdrop_key = None,
     closable_key = None, onHide_key = None, onShow_key = None, onToggle_key = None\<rparr>"

section \<open>The class Modal\<close>

text \<open>
  The fields of an instance; \<open>f_x\<close> is \<^verbatim>\<open>this._x\<close>. The six bound handlers are function
  objects made once per instance by the field initialisers.
\<close>

record modal =
  f_targetEl :: ref
  f_options :: ModalOptions
  f_isHidden :: bool
  f_backdropEl :: "ref option"
  f_clickOutsideEventListener :: "fn_ref option"
  f_keydownEventListener :: "fn_ref option"
  f_resizeTargetEl :: "ref option"
  f_modalWidthBeforeResize :: number
  f_modalHeightBeforeResize :: number
  f_resizeMouseDownX :: number
  f_resizeMouseDownY :: number
  f_dragAnchorEl :: "ref option"
  f_dragTargetEl :: "ref option"
  f_dragXBeforeDragging :: number
  f_dragYBeforeDragging :: number
  f_currentDragX :: number
  f_currentDragY :: number
  f_dragMouseDownX :: number
  f_dragMouseDownY :: number
  f_onResizeMouseDown :: fn_ref
  f_onResizeMouseMove :: fn_ref
  f_onResizeMouseUp :: fn_ref
  f_onDragMouseDown :: fn_ref
  f_onDragMouseMove :: fn_ref
  f_onDragMouseUp :: fn_ref

type_synonym state = "modal \<times> env"

definition invoke :: "hook \<Rightarrow> callback \<Rightarrow> env \<Rightarrow> env" where
  "invoke h cb e = e\<lparr>calls := calls e @ [(h, cb)]\<rparr>"

definition invocations :: "hook \<Rightarrow> env \<Rightarrow> nat" where
  "invocations h e = length (filter (\<lambda>c. fst c = h) (calls e))"

definition Modal_isVisible :: "modal \<Rightarrow> bool" where
  "Modal_isVisible m = (\<not> f_isHidden m)"

definition Modal_isHidden :: "modal \<Rightarrow> bool" where
  "Modal_isHidden m = f_isHidden m"

text \<open>
  \<^verbatim>\<open>if (this.isHidden)\<close> and \<^verbatim>\<open>if (this.isVisible)\<close> test the method itself, a function
  object, and a function object is truthy whatever the method would return.
\<close>

definition method_reference_truthy :: "(modal \<Rightarrow> bool) \<Rightarrow> bool" where
  "method_reference_truthy f = True"

definition Modal_getPlacementClasses :: "modal \<Rightarrow> string list" where
  "Modal_getPlacementClasses m =
     (let p = placement (f_options m) in
      if p = ''top-left'' then [''justify-start'', ''items-start'']
      else if p = ''top-center'' then [''justify-center'', ''items-start'']
      else if p = ''top-right'' then [''justify-end'', ''items-start'']
      else if p = ''center-left'' then [''justify-start'', ''items-center'']
      else if p = ''center'' then [''justify-center'', ''items-center'']
      else if p = ''center-right'' then [''justify-end'', ''items-center'']
      else if p = ''bottom-left'' then [''justify-start'', ''items-end'']
      else if p = ''bottom-center'' then [''justify-center'', ''items-end'']
      else if p = ''bottom-right'' then [''justify-end'', ''items-end'']
      else [''justify-center'', ''items-center''])"

definition Modal_createBackdrop :: "state \<Rightarrow> error + state" where
  "Modal_createBackdrop s =
     (case s of (m, e) \<Rightarrow>
        if f_isHidden m then
          (let backdropEl = next_ref e;
               e1 = e\<lparr>elems := (elems e)(backdropEl := blank_element),
                      parentNode := (parentNode e)(backdropEl := None),
                      next_ref := Suc backdropEl\<rparr>;
               e2 = upd_elem backdropEl (setAttribute ''modal-backdrop'' '''') e1
           in case classList_add_all (split_space (backdropClasses (f_options m)))
                     (elems e2 backdropEl) of
                Inl err \<Rightarrow> Inl err
              | Inr el \<Rightarrow>
                  Inr (m\<lparr>f_backdropEl := Some backdropEl\<rparr>,
                       e2\<lparr>elems := (elems e2)(backdropEl := el),
                          parentNode := (parentNode e2)(backdropEl \<mapsto> body e2),
                          backdrops := backdrops e2 @ [backdropEl]\<rparr>))
        else Inr (m, e))"

text \<open>
  \<^verbatim>\<open>document.querySelector('[modal-backdrop]').remove()\<close>: the first element of the
  document with the attribute is removed, so it has no parent any more; with no such
  element \<^verbatim>\<open>querySelector\<close> returns \<^verbatim>\<open>null\<close> and the call is a TypeError.
\<close>

definition Modal_destroyBackdropEl :: "state \<Rightarrow> error + state" where
  "Modal_destroyBackdropEl s =
     (case s of (m, e) \<Rightarrow>
        if \<not> f_isHidden m then
          (case backdrops e of
             [] \<Rightarrow> Inl TypeError
           | b # bs \<Rightarrow> Inr (m, e\<lparr>parentNode := (parentNode e)(b := None), backdrops := bs\<rparr>))
        else Inr (m, e))"

definition Modal_setupModalCloseEventListeners :: "state \<Rightarrow> state" where
  "Modal_setupModalCloseEventListeners s =
     (case s of (m, e) \<Rightarrow>
        let (m1, e1) =
              (if backdrop (f_options m) = ''dynamic'' then
                 (let f = next_fn e in
                  (m\<lparr>f_clickOutsideEventListener := Some f\<rparr>,
                   upd_elem (f_targetEl m) (addEventListener ''mouseup'' f True)
                     (e\<lparr>next_fn := Suc f\<rparr>)))
               else (m, e));
            k = next_fn e1
        in (m1\<lparr>f_keydownEventListener := Some k\<rparr>,
            upd_elem (body e1) (addEventListener ''keydown'' k True) (e1\<lparr>next_fn := Suc k\<rparr>)))"

definition Modal_removeModalCloseEventListeners :: "state \<Rightarrow> state" where
  "Modal_removeModalCloseEventListeners s =
     (case s of (m, e) \<Rightarrow>
        let e1 = (if backdrop (f_options m) = ''dynamic'' then
                    upd_elem (f_targetEl m)
                      (removeEventListener ''click'' (f_clickOutsideEventListener m) True) e
                  else e)
        in (m, upd_elem (body e1)
                 (removeEventListener ''keydown'' (f_keydownEventListener m) True) e1))"

definition Modal_show :: "state \<Rightarrow> error + state" where
  "Modal_show s =
     (case s of (m, e) \<Rightarrow>
        if method_reference_truthy Modal_isHidden then
          (let t = f_targetEl m;
               e1 = upd_elem t (classList_add ''flex'') e;
               e2 = upd_elem t (classList_remove ''hidden'') e1;
               e3 = upd_elem t (setAttribute ''aria-modal'' ''true'') e2;
               e4 = upd_elem t (setAttribute ''role'' ''dialog'') e3;
               e5 = upd_elem t (removeAttribute ''aria-hidden'') e4
           in case Modal_createBackdrop (m, e5) of
                Inl err \<Rightarrow> Inl err
              | Inr (m1, e6) \<Rightarrow>
                  (let m2 = m1\<lparr>f_isHidden := False\<rparr>;
                       e7 = upd_elem (body e6) (classList_add ''overflow-hidden'') e6;
                       (m3, e8) = (if closable (f_options m2)
                                   then Modal_setupModalCloseEventListeners (m2, e7)
                                   else (m2, e7))
                   in Inr (m3, invoke OnShow (onShow (f_options m3)) e8)))
        else Inr (m, e))"

definition Modal_hide :: "state \<Rightarrow> error + state" where
  "Modal_hide s =
     (case s of (m, e) \<Rightarrow>
        if method_reference_truthy Modal_isVisible then
          (let t = f_targetEl m;
               e1 = upd_elem t (classList_add ''hidden'') e;
               e2 = upd_elem t (classList_remove ''flex'') e1;
               e3 = upd_elem t (setAttribute ''aria-hidden'' ''true'') e2;
               e4 = upd_elem t (removeAttribute ''aria-modal'') e3;
               e5 = upd_elem t (removeAttribute ''role'') e4
           in case Modal_destroyBackdropEl (m, e5) of
                Inl err \<Rightarrow> Inl err
              | Inr (m1, e6) \<Rightarrow>
                  (let m2 = m1\<lparr>f_isHidden := True\<rparr>;
                       e7 = upd_elem (body e6) (classList_remove ''overflow-hidden'') e6;
                       (m3, e8) = (if closable (f_options m2)
                                   then Modal_removeModalCloseEventListeners (m2, e7)
                                   else (m2, e7))
                   in Inr (m3, invoke OnHide (onHide (f_options m3)) e8)))
        else Inr (m, e))"

definition Modal_toggle :: "state \<Rightarrow> error + state" where
  "Modal_toggle s =
     (case (if f_isHidden (fst s) then Modal_show s else Modal_hide s) of
        Inl err \<Rightarrow> Inl err
      | Inr (m, e) \<Rightarrow> Inr (m, invoke OnToggle (onToggle (f_options m)) e))"



definition keydownEventListener :: "state \<Rightarrow> string \<Rightarrow> error + state" where
  "keydownEventListener s ev_key = (if ev_key = ''Escape'' then Modal_hide s else Inr s)"

subsection \<open>Delivery of a mouse-up event\<close>

text \<open>
  \<^verbatim>\<open>a.contains(x)\<close>: \<open>a\<close> is \<open>x\<close> or an ancestor of \<open>x\<close>. The parents of \<open>x\<close> are
  followed for at most as many steps as nodes have been made.
\<close>

fun ancestor_within :: "nat \<Rightarrow> (ref \<Rightarrow> ref option) \<Rightarrow> ref \<Rightarrow> ref \<Rightarrow> bool" where
  "ancestor_within 0 p a x = (a = x)"
| "ancestor_within (Suc n) p a x =
     (a = x \<or> (case p x of None \<Rightarrow> False | Some y \<Rightarrow> ancestor_within n p a y))"

definition contains :: "env \<Rightarrow> ref \<Rightarrow> ref \<Rightarrow> bool" where
  "contains e a x = ancestor_within (next_ref e) (parentNode e) a x"




section \<open>Construction\<close>

text \<open>A template literal prints \<^verbatim>\<open>null\<close> as the four letters.\<close>

definition js_string :: "string option \<Rightarrow> string" where
  "js_string v = (case v of None \<Rightarrow> ''null'' | Some s \<Rightarrow> s)"

definition Modal_init_resize :: "state \<Rightarrow> error + state" where
  "Modal_init_resize s =
     (case s of (m, e) \<Rightarrow>
        (case querySelector e (f_targetEl m) ''[data-modal-resize-target]'' of
          Inl err \<Rightarrow> Inl err
        | Inr None \<Rightarrow> Inr (m, e)
        | Inr (Some resizeEl) \<Rightarrow>
            (let resizeTargetId = getAttribute e resizeEl ''data-modal-resize-target'' in
             case querySelector e (f_targetEl m) (''#'' @ js_string resizeTargetId) of
               Inl err \<Rightarrow> Inl err
             | Inr None \<Rightarrow> Inr (m, e)
             | Inr (Some resizeTargetEl) \<Rightarrow>
                 Inr (m\<lparr>f_resizeTargetEl := Some resizeTargetEl\<rparr>,
                      upd_elem resizeEl
                        (addEventListener ''mousedown'' (f_onResizeMouseDown m) True) e))))"

definition Modal_init_drag :: "state \<Rightarrow> error + state" where
  "Modal_init_drag s =
     (case s of (m, e) \<Rightarrow>
        (case querySelector e (f_targetEl m) ''[data-modal-drag]'' of
          Inl err \<Rightarrow> Inl err
        | Inr None \<Rightarrow> Inr (m, e)
        | Inr (Some dragAnchorEl) \<Rightarrow>
            (let dragTargetId = getAttribute e dragAnchorEl ''data-modal-drag'' in
             case querySelector e (f_targetEl m) (''#'' @ js_string dragTargetId) of
               Inl err \<Rightarrow> Inl err
             | Inr None \<Rightarrow> Inr (m, e)
             | Inr (Some dragTargetEl) \<Rightarrow>
                 Inr (m\<lparr>f_dragAnchorEl := Some dragAnchorEl, f_dragTargetEl := Some dragTargetEl\<rparr>,
                      upd_elem dragAnchorEl
                        (addEventListener ''mousedown'' (f_onDragMouseDown m) True) e))))"

definition Modal_init :: "state \<Rightarrow> error + state" where
  "Modal_init s =
     (case s of (m, e) \<Rightarrow>
        let e1 = fold (\<lambda>c. upd_elem (f_targetEl m) (classList_add c))
                   (Modal_getPlacementClasses m) e
        in (case Modal_init_resize (m, e1) of
             Inl err \<Rightarrow> Inl err
           | Inr s2 \<Rightarrow> Modal_init_drag s2))"

text \<open>
  \<^verbatim>\<open>new Modal(targetEl, options)\<close>. With \<^verbatim>\<open>targetEl\<close> null, \<^verbatim>\<open>_init\<close> skips the placement
  classes and then calls \<^verbatim>\<open>this._targetEl.querySelector\<close>, a TypeError: no instance has a
  null target, so the field \<open>f_targetEl\<close> is a reference. An \<open>options\<close> argument that is
  \<^verbatim>\<open>undefined\<close> (\<open>None\<close>) is replaced by \<^verbatim>\<open>Default\<close>.
\<close>

definition Modal_constructor :: "env \<Rightarrow> ref option \<Rightarrow> PartialOptions option \<Rightarrow> error + state" where
  "Modal_constructor e targetEl options =
     (case targetEl of
        None \<Rightarrow> Inl TypeError
      | Some t \<Rightarrow>
          (let f = next_fn e in
           Modal_init
             (\<lparr>f_targetEl = t,
               f_options = spread Default
                 (case options of None \<Rightarrow> as_partial Default | Some p \<Rightarrow> p),
               f_isHidden = True,
               f_backdropEl = None,
               f_clickOutsideEventListener = None,
               f_keydownEventListener = None,
               f_resizeTargetEl = None,
               f_modalWidthBeforeResize = None,
               f_modalHeightBeforeResize = None,
               f_resizeMouseDownX = None,
               f_resizeMouseDownY = None,
               f_dragAnchorEl = None,
               f_dragTargetEl = None,
               f_dragXBeforeDragging = Some 0,
               f_dragYBeforeDragging = Some 0,
               f_currentDragX = Some 0,
               f_currentDragY = Some 0,
               f_dragMouseDownX = None,
               f_dragMouseDownY = None,
               f_onResizeMouseDown = f,
               f_onResizeMouseMove = f + 1,
               f_onResizeMouseUp = f + 2,
               f_onDragMouseDown = f + 3,
               f_onDragMouseMove = f + 4,
               f_onDragMouseUp = f + 5\<rparr>,
              e\<lparr>next_fn := f + 6\<rparr>)))"

section \<open>Resizing and dragging\<close>

text \<open>Arithmetic on numbers: an operand that is \<^verbatim>\<open>undefined\<close> or \<^verbatim>\<open>NaN\<close> gives \<^verbatim>\<open>NaN\<close>.\<close>

definition num_add :: "number \<Rightarrow> number \<Rightarrow> number" where
  "num_add a b = (case (a, b) of (Some x, Some y) \<Rightarrow> Some (x + y) | _ \<Rightarrow> None)"

definition num_sub :: "number \<Rightarrow> number \<Rightarrow> number" where
  "num_sub a b = (case (a, b) of (Some x, Some y) \<Rightarrow> Some (x - y) | _ \<Rightarrow> None)"

definition Math_max :: "number \<Rightarrow> number \<Rightarrow> number" where
  "Math_max a b = (case (a, b) of (Some x, Some y) \<Rightarrow> Some (max x y) | _ \<Rightarrow> None)"

text \<open>The decimal text of an integer, as a template literal prints it.\<close>

definition digit_char :: "nat \<Rightarrow> char" where
  "digit_char d = char_of (48 + d)"

function string_of_nat :: "nat \<Rightarrow> string" where
  "string_of_nat n =
     (if n < 10 then [digit_char n] else string_of_nat (n div 10) @ [digit_char (n mod 10)])"
  by pat_completeness auto
termination
  by (relation "measure (\<lambda>n. n)") auto

definition string_of_int :: "int \<Rightarrow> string" where
  "string_of_int i = (if i < 0 then CHR ''-'' # string_of_nat (nat (- i)) else string_of_nat (nat i))"

text \<open>
  A style property is set to the text given; a text that is no CSS value (one printed
  from \<^verbatim>\<open>NaN\<close>, \<open>None\<close> here) is ignored by the setter.
\<close>

definition px :: "number \<Rightarrow> string option" where
  "px n = (case n of None \<Rightarrow> None | Some i \<Rightarrow> Some (string_of_int i @ ''px''))"

definition translate :: "number \<Rightarrow> number \<Rightarrow> string option" where
  "translate x y =
     (case (x, y) of
        (Some i, Some j) \<Rightarrow>
          Some (''translate('' @ string_of_int i @ ''px, '' @ string_of_int j @ ''px)'')
      | _ \<Rightarrow> None)"

definition style_set :: "string \<Rightarrow> string option \<Rightarrow> element \<Rightarrow> element" where
  "style_set p v el = (case v of None \<Rightarrow> el | Some t \<Rightarrow> el\<lparr>style := (style el)(p \<mapsto> t)\<rparr>)"

text \<open>
  A mouse event: its target, the pointer position, and the result of
  \<^verbatim>\<open>target.closest('a, button')\<close>. \<^verbatim>\<open>stopPropagation\<close> and \<^verbatim>\<open>preventDefault\<close> act on the
  event only.
\<close>

record MouseEvent =
  ev_target :: ref
  pageX :: int
  pageY :: int
  closest_a_button :: "ref option"

definition onResizeMouseDown :: "state \<Rightarrow> MouseEvent \<Rightarrow> error + state" where
  "onResizeMouseDown s ev =
     (case s of (m, e) \<Rightarrow>
        (case f_resizeTargetEl m of
          None \<Rightarrow> Inl TypeError
        | Some rt \<Rightarrow>
            Inr (m\<lparr>f_modalWidthBeforeResize := Some (clientWidth (elems e rt)),
                   f_modalHeightBeforeResize := Some (clientHeight (elems e rt)),
                   f_resizeMouseDownX := Some (pageX ev),
                   f_resizeMouseDownY := Some (pageY ev)\<rparr>,
                 e\<lparr>document_listeners :=
                     add_listener (''mouseup'', f_onResizeMouseUp m, True)
                       (add_listener (''mousemove'', f_onResizeMouseMove m, True)
                          (document_listeners e))\<rparr>)))"

definition onResizeMouseMove :: "state \<Rightarrow> MouseEvent \<Rightarrow> error + state" where
  "onResizeMouseMove s ev =
     (case s of (m, e) \<Rightarrow>
        let deltaX = num_sub (Some (pageX ev)) (f_resizeMouseDownX m);
            deltaY = num_sub (Some (pageY ev)) (f_resizeMouseDownY m);
            newWidth = num_add (f_modalWidthBeforeResize m) deltaX;
            newHeight = num_add (f_modalHeightBeforeResize m) deltaY;
            newWidth = Math_max (Some MinResizeWidth) newWidth;
            newHeight = Math_max (Some MinResizeHeight) newHeight
        in (case f_resizeTargetEl m of
             None \<Rightarrow> Inl TypeError
           | Some rt \<Rightarrow>
               Inr (m, upd_elem rt (style_set ''maxWidth'' (Some ''100%''))
                         (upd_elem rt (style_set ''height'' (px newHeight))
                            (upd_elem rt (style_set ''width'' (px newWidth)) e)))))"

definition onResizeMouseUp :: "state \<Rightarrow> MouseEvent \<Rightarrow> error + state" where
  "onResizeMouseUp s ev =
     (case s of (m, e) \<Rightarrow>
        Inr (m, e\<lparr>document_listeners :=
                    remove_listener ''mouseup'' (Some (f_onResizeMouseUp m)) True
                      (remove_listener ''mousemove'' (Some (f_onResizeMouseMove m)) True
                         (document_listeners e))\<rparr>))"

definition onDragMouseDown :: "state \<Rightarrow> MouseEvent \<Rightarrow> error + state" where
  "onDragMouseDown s ev =
     (case s of (m, e) \<Rightarrow>
        if closest_a_button ev \<noteq> None then Inr (m, e)
        else
          Inr (m\<lparr>f_dragMouseDownX := Some (pageX ev), f_dragMouseDownY := Some (pageY ev)\<rparr>,
               e\<lparr>console := console e @ [Log ''target'', LogNode (ev_target ev)],
                 document_listeners :=
                   add_listener (''mouseup'', f_onDragMouseUp m, True)
                     (add_listener (''mousemove'', f_onDragMouseMove m, True)
                        (document_listeners e))\<rparr>))"

definition onDragMouseMove :: "state \<Rightarrow> MouseEvent \<Rightarrow> error + state" where
  "onDragMouseMove s ev =
     (case s of (m, e) \<Rightarrow>
        let deltaX = num_sub (Some (pageX ev)) (f_dragMouseDownX m);
            deltaY = num_sub (Some (pageY ev)) (f_dragMouseDownY m);
            newX = num_add (f_dragXBeforeDragging m) deltaX;
            newY = num_add (f_dragYBeforeDragging m) deltaY
        in (case f_dragTargetEl m of
             None \<Rightarrow> Inl TypeError
           | Some dt \<Rightarrow>
               Inr (m\<lparr>f_currentDragX := newX, f_currentDragY := newY\<rparr>,
                    upd_elem dt (style_set ''transform'' (translate newX newY)) e)))"

definition onDragMouseUp :: "state \<Rightarrow> MouseEvent \<Rightarrow> error + state" where
  "onDragMouseUp s ev =
     (case s of (m, e) \<Rightarrow>
        Inr (m\<lparr>f_dragXBeforeDragging := f_currentDragX m,
               f_dragYBeforeDragging := f_currentDragY m\<rparr>,
             e\<lparr>document_listeners :=
                 remove_listener ''mouseup'' (Some (f_onDragMouseUp m)) True
                   (remove_listener ''mousemove'' (Some (f_onDragMouseMove m)) True
                      (document_listeners e))\<rparr>))"

text \<open>A handler run on each event of a list in turn; an exception ends the run.\<close>

fun run_events :: "(state \<Rightarrow> MouseEvent \<Rightarrow> error + state) \<Rightarrow> MouseEvent list \<Rightarrow> state \<Rightarrow> error + state" where
  "run_events h [] s = Inr s"
| "run_events h (ev # evs) s =
     (case h s ev of Inl err \<Rightarrow> Inl err | Inr s' \<Rightarrow> run_events h evs s')"

section \<open>Bootstrapping from markup\<close>

record ModalInstance =
  mi_id :: "string option"
  mi_object :: modal

text \<open>
  \<^verbatim>\<open>instances.some(..) ? instances.find(..) : null\<close>. An id is what \<^verbatim>\<open>getAttribute\<close>
  returned: a text or \<^verbatim>\<open>null\<close>.
\<close>

definition getModalInstance :: "string option \<Rightarrow> ModalInstance list \<Rightarrow> ModalInstance option" where
  "getModalInstance i instances =
     (if list_ex (\<lambda>modalInstance. mi_id modalInstance = i) instances
      then find (\<lambda>modalInstance. mi_id modalInstance = i) instances
      else None)"

text \<open>\<^verbatim>\<open>v ? v : d\<close> for an attribute value: \<^verbatim>\<open>null\<close> and the empty text are falsy.\<close>

definition or_default :: "string option \<Rightarrow> string \<Rightarrow> string" where
  "or_default v d = (case v of None \<Rightarrow> d | Some t \<Rightarrow> if t = [] then d else t)"

definition markup_options :: "env \<Rightarrow> ref \<Rightarrow> PartialOptions" where
  "markup_options e modalEl =
     (let placement = getAttribute e modalEl ''data-modal-placement'';
          backdrop = getAttribute e modalEl ''data-modal-backdrop''
      in no_options\<lparr>placement_key := Some (or_default placement (ModalOptions.placement Default)),
                    backdrop_key := Some (or_default backdrop (ModalOptions.backdrop Default))\<rparr>)"

type_synonym registry = "ModalInstance list \<times> env"

fun forEach :: "('a \<Rightarrow> 's \<Rightarrow> error + 's) \<Rightarrow> 'a list \<Rightarrow> 's \<Rightarrow> error + 's" where
  "forEach f [] s = Inr s"
| "forEach f (x # xs) s = (case f x s of Inl err \<Rightarrow> Inl err | Inr s' \<Rightarrow> forEach f xs s')"

definition console_error :: "string \<Rightarrow> env \<Rightarrow> env" where
  "console_error msg e = e\<lparr>console := console e @ [Error msg]\<rparr>"

text \<open>The body of the loop over \<^verbatim>\<open>[data-modal-target]\<close>.\<close>

definition target_step :: "ref \<Rightarrow> registry \<Rightarrow> error + registry" where
  "target_step triggerEl r =
     (case r of (modalInstances, e) \<Rightarrow>
        (let modalId = getAttribute e triggerEl ''data-modal-target'' in
         (case getElementById e (js_string modalId) of
            Some modalEl \<Rightarrow>
              (if getModalInstance modalId modalInstances = None then
                 (case Modal_constructor e (Some modalEl) (Some (markup_options e modalEl)) of
                    Inl err \<Rightarrow> Inl err
                  | Inr (m, e') \<Rightarrow>
                      Inr (modalInstances @ [\<lparr>mi_id = modalId, mi_object = m\<rparr>], e'))
               else Inr (modalInstances, e))
          | None \<Rightarrow>
              Inr (modalInstances,
                   console_error (''Modal with id '' @ js_string modalId @
                     '' does not exist. Are you sure that the data-modal-target attribute points to the correct modal id?.'') e))))"

text \<open>
  The body of the loop over \<^verbatim>\<open>[data-modal-toggle]\<close>; the click listener is a fresh
  closure, registered without a capture flag.
\<close>

definition add_click_listener :: "ref \<Rightarrow> env \<Rightarrow> env" where
  "add_click_listener triggerEl e =
     upd_elem triggerEl (addEventListener ''click'' (next_fn e) False)
       (e\<lparr>next_fn := Suc (next_fn e)\<rparr>)"

definition toggle_step :: "ref \<Rightarrow> registry \<Rightarrow> error + registry" where
  "toggle_step triggerEl r =
     (case r of (modalInstances, e) \<Rightarrow>
        (let modalId = getAttribute e triggerEl ''data-modal-toggle'' in
         (case getElementById e (js_string modalId) of
            Some modalEl \<Rightarrow>
              (case getModalInstance modalId modalInstances of
                 None \<Rightarrow>
                   (case Modal_constructor e (Some modalEl) (Some (markup_options e modalEl)) of
                      Inl err \<Rightarrow> Inl err
                    | Inr (m, e') \<Rightarrow>
                        Inr (modalInstances @ [\<lparr>mi_id = modalId, mi_object = m\<rparr>],
                             add_click_listener triggerEl e'))
               | Some modal \<Rightarrow> Inr (modalInstances, add_click_listener triggerEl e))
          | None \<Rightarrow>
              Inr (modalInstances,
                   console_error (''Modal with id '' @ js_string modalId @
                     '' does not exist. Are you sure that the data-modal-toggle attribute points to the correct modal id?'') e))))"

text \<open>The bodies of the loops over \<^verbatim>\<open>[data-modal-show]\<close> and \<^verbatim>\<open>[data-modal-hide]\<close>.\<close>

definition show_hide_step :: "string \<Rightarrow> ref \<Rightarrow> registry \<Rightarrow> error + registry" where
  "show_hide_step attr triggerEl r =
     (case r of (modalInstances, e) \<Rightarrow>
        (let modalId = getAttribute e triggerEl attr in
         (case getElementById e (js_string modalId) of
            Some modalEl \<Rightarrow>
              (case getModalInstance modalId modalInstances of
                 Some modal \<Rightarrow> Inr (modalInstances, add_click_listener triggerEl e)
               | None \<Rightarrow>
                   Inr (modalInstances,
                        console_error (''Modal with id '' @ js_string modalId @
                          '' has not been initialized. Please initialize it using the data-modal-target attribute.'') e))
          | None \<Rightarrow>
              Inr (modalInstances,
                   console_error (''Modal with id '' @ js_string modalId @
                     '' does not exist. Are you sure that the '' @ attr @
                     '' attribute points to the correct modal id?'') e))))"

text \<open>
  \<^verbatim>\<open>initModals\<close>, run on the first \<open>n1\<close>, \<open>n2\<close>, \<open>n3\<close> and \<open>n4\<close> triggers of its four
  loops: every state the function passes through is such a run, since a loop starts
  when the one before is over.
\<close>

definition initModals_upto :: "nat \<Rightarrow> nat \<Rightarrow> nat \<Rightarrow> nat \<Rightarrow> env \<Rightarrow> error + registry" where
  "initModals_upto n1 n2 n3 n4 e =
     (case forEach target_step (take n1 (querySelectorAll e ''[data-modal-target]'')) ([], e) of
        Inl err \<Rightarrow> Inl err
      | Inr r1 \<Rightarrow>
     (case forEach toggle_step (take n2 (querySelectorAll e ''[data-modal-toggle]'')) r1 of
        Inl err \<Rightarrow> Inl err
      | Inr r2 \<Rightarrow>
     (case forEach (show_hide_step ''data-modal-show'')
             (take n3 (querySelectorAll e ''[data-modal-show]'')) r2 of
        Inl err \<Rightarrow> Inl err
      | Inr r3 \<Rightarrow>
          forEach (show_hide_step ''data-modal-hide'')
            (take n4 (querySelectorAll e ''[data-modal-hide]'')) r3)))"

definition initModals :: "env \<Rightarrow> error + registry" where
  "initModals e =
     (case forEach target_step (querySelectorAll e ''[data-modal-target]'') ([], e) of
        Inl err \<Rightarrow> Inl err
      | Inr r1 \<Rightarrow>
     (case forEach toggle_step (querySelectorAll e ''[data-modal-toggle]'') r1 of
        Inl err \<Rightarrow> Inl err
      | Inr r2 \<Rightarrow>
     (case forEach (show_hide_step ''data-modal-show'') (querySelectorAll e ''[data-modal-show]'') r2 of
        Inl err \<Rightarrow> Inl err
      | Inr r3 \<Rightarrow>
          forEach (show_hide_step ''data-modal-hide'') (querySelectorAll e ''[data-modal-hide]'') r3)))"

section \<open>Auxiliary definitions for the proofs\<close>

text \<open>
  What \<^verbatim>\<open>show\<close> and \<^verbatim>\<open>hide\<close> do to the target element, and their conditional calls of
  the listener set-up and removal, named so that the facts below can speak about them.
\<close>

definition show_target :: "element \<Rightarrow> element" where
  "show_target el = removeAttribute ''aria-hidden'' (setAttribute ''role'' ''dialog''
     (setAttribute ''aria-modal'' ''true'' (classList_remove ''hidden'' (classList_add ''flex'' el))))"

definition hide_target :: "element \<Rightarrow> element" where
  "hide_target el = removeAttribute ''role'' (removeAttribute ''aria-modal''
     (setAttribute ''aria-hidden'' ''true'' (classList_remove ''flex'' (classList_add ''hidden'' el))))"

definition setup_if_closable :: "state \<Rightarrow> state" where
  "setup_if_closable s =
     (if closable (f_options (fst s)) then Modal_setupModalCloseEventListeners s else s)"

definition remove_if_closable :: "state \<Rightarrow> state" where
  "remove_if_closable s =
     (if closable (f_options (fst s)) then Modal_removeModalCloseEventListeners s else s)"

text \<open>
  A concrete page for the examples. Node 0 is the dialog element, with the markup
  \<^verbatim>\<open>class="hidden" aria-hidden="true"\<close>; node 1 is \<^verbatim>\<open>document.body\<close>; inside the dialog
  element are the dialog box (node 3, id \<^verbatim>\<open>box\<close>, rendered 400 by 120 pixels), a resize
  handle (node 4, \<^verbatim>\<open>data-modal-resize-target="box"\<close>) and a drag anchor (node 5,
  \<^verbatim>\<open>data-modal-drag="box"\<close>). Nodes 10 and 11 are triggers with
  \<^verbatim>\<open>data-modal-target="dlg"\<close>, node 12 is one with \<^verbatim>\<open>data-modal-toggle="dlg"\<close>, and
  \<^verbatim>\<open>dlg\<close> is the id of the dialog element. The dialog element and the triggers are
  children of \<^verbatim>\<open>document.body\<close>. New nodes are numbered from 20.
\<close>

definition page :: env where
  "page = \<lparr>elems = (\<lambda>r. blank_element)
       (0 := blank_element\<lparr>classList := [''hidden''],
                           attributes := [''aria-hidden'' \<mapsto> ''true'', ''id'' \<mapsto> ''dlg'']\<rparr>,
        3 := blank_element\<lparr>attributes := [''id'' \<mapsto> ''box''],
                           clientWidth := 400, clientHeight := 120\<rparr>,
        4 := blank_element\<lparr>attributes := [''data-modal-resize-target'' \<mapsto> ''box'']\<rparr>,
        5 := blank_element\<lparr>attributes := [''data-modal-drag'' \<mapsto> ''box'']\<rparr>,
        10 := blank_element\<lparr>attributes := [''data-modal-target'' \<mapsto> ''dlg'']\<rparr>,
        11 := blank_element\<lparr>attributes := [''data-modal-target'' \<mapsto> ''dlg'']\<rparr>,
        12 := blank_element\<lparr>attributes := [''data-modal-toggle'' \<mapsto> ''dlg'']\<rparr>),
     parentNode = (\<lambda>r. None)
       (0 \<mapsto> 1, 3 \<mapsto> 0, 4 \<mapsto> 0, 5 \<mapsto> 0, 10 \<mapsto> 1, 11 \<mapsto> 1, 12 \<mapsto> 1),
     body = 1, document_listeners = [], backdrops = [], next_ref = 20, next_fn = 0,
     querySelector = (\<lambda>r sel.
        if r = 0 \<and> sel = ''[data-modal-resize-target]'' then Inr (Some 4)
        else if r = 0 \<and> sel = ''[data-modal-drag]'' then Inr (Some 5)
        else if r = 0 \<and> sel = ''#box'' then Inr (Some 3)
        else Inr None),
     querySelectorAll = (\<lambda>sel.
        if sel = ''[data-modal-target]'' then [10, 11]
        else if sel = ''[data-modal-toggle]'' then [12] else []),
     getElementById = (\<lambda>i. if i = ''dlg'' then Some 0 else if i = ''box'' then Some 3 else None),
     calls = [], console = []\<rparr>"

text \<open>
  The instance that \<^verbatim>\<open>new Modal(node 0)\<close> returns on this page, and the page as the
  constructor leaves it: the placement classes are on the dialog element, the
  mouse-down listeners on the handle and the anchor.
\<close>

definition dialog :: modal where
  "dialog = \<lparr>f_targetEl = 0, f_options = Default, f_isHidden = True, f_backdropEl = None,
     f_clickOutsideEventListener = None, f_keydownEventListener = None,
     f_resizeTargetEl = Some 3, f_modalWidthBeforeResize = None,
     f_modalHeightBeforeResize = None, f_resizeMouseDownX = None, f_resizeMouseDownY = None,
     f_dragAnchorEl = Some 5, f_dragTargetEl = Some 3,
     f_dragXBeforeDragging = Some 0, f_dragYBeforeDragging = Some 0,
     f_currentDragX = Some 0, f_currentDragY = Some 0,
     f_dragMouseDownX = None, f_dragMouseDownY = None,
     f_onResizeMouseDown = 0, f_onResizeMouseMove = 1, f_onResizeMouseUp = 2,
     f_onDragMouseDown = 3, f_onDragMouseMove = 4, f_onDragMouseUp = 5\<rparr>"

definition dialog_page :: env where
  "dialog_page = page\<lparr>elems := (elems page)
       (0 := (elems page 0)\<lparr>classList := [''hidden'', ''justify-center'', ''items-center'']\<rparr>,
        4 := (elems page 4)\<lparr>listeners := [(''mousedown'', 0, True)]\<rparr>,
        5 := (elems page 5)\<lparr>listeners := [(''mousedown'', 3, True)]\<rparr>),
     next_fn := 6\<rparr>"

text \<open>
  An options object whose backdrop classes end in a space, and the instance that
  \<^verbatim>\<open>new Modal(node 0, options)\<close> returns for it on the example page.
\<close>

definition spaced_options :: PartialOptions where
  "spaced_options = no_options\<lparr>backdropClasses_key := Some ''bg-black ''\<rparr>"

definition spaced_dialog :: modal where
  "spaced_dialog = dialog\<lparr>f_options := Default\<lparr>backdropClasses := ''bg-black ''\<rparr>\<rparr>"

text \<open>\<^verbatim>\<open>show()\<close> followed by \<^verbatim>\<open>hide()\<close>.\<close>

definition show_then_hide :: "state \<Rightarrow> error + state" where
  "show_then_hide s = (case Modal_show s of Inl err \<Rightarrow> Inl err | Inr s1 \<Rightarrow> Modal_hide s1)"

text \<open>
  The same situation for a dialog element whose markup is \<^verbatim>\<open>class="fixed"\<close> with no
  \<^verbatim>\<open>aria-hidden\<close> attribute, while another element with the attribute
  \<^verbatim>\<open>modal-backdrop\<close> (node 9, the backdrop of another modal that is open) is in the
  document: the page before and after \<^verbatim>\<open>new Modal(node 0)\<close>.
\<close>

definition bare_markup :: env where
  "bare_markup = page\<lparr>elems := (elems page)
       (0 := blank_element\<lparr>classList := [''fixed''], attributes := [''id'' \<mapsto> ''dlg'']\<rparr>),
     backdrops := [9]\<rparr>"

definition bare_page :: env where
  "bare_page = bare_markup\<lparr>elems := (elems bare_markup)
       (0 := (elems bare_markup 0)\<lparr>classList := [''fixed'', ''justify-center'', ''items-center'']\<rparr>,
        4 := (elems bare_markup 4)\<lparr>listeners := [(''mousedown'', 0, True)]\<rparr>,
        5 := (elems bare_markup 5)\<lparr>listeners := [(''mousedown'', 3, True)]\<rparr>),
     next_fn := 6\<rparr>"

text \<open>The nine placements of the \<^verbatim>\<open>switch\<close> and the class pair of each, in its order.\<close>

definition compass_positions :: "string list" where
  "compass_positions = [''top-left'', ''top-center'', ''top-right'',
     ''center-left'', ''center'', ''center-right'',
     ''bottom-left'', ''bottom-center'', ''bottom-right'']"

definition placement_pairs :: "string list list" where
  "placement_pairs = [[''justify-start'', ''items-start''], [''justify-center'', ''items-start''],
     [''justify-end'', ''items-start''], [''justify-start'', ''items-center''],
     [''justify-center'', ''items-center''], [''justify-end'', ''items-center''],
     [''justify-start'', ''items-end''], [''justify-center'', ''items-end''],
     [''justify-end'', ''items-end'']]"

text \<open>A drag gesture: mouse-down on the anchor, moves, mouse-up, as the handlers see them.\<close>

definition drag_gesture :: "MouseEvent \<Rightarrow> MouseEvent list \<Rightarrow> MouseEvent \<Rightarrow> state \<Rightarrow> error + state" where
  "drag_gesture down moves up s =
     (case onDragMouseDown s down of
        Inl err \<Rightarrow> Inl err
      | Inr s1 \<Rightarrow>
          (case run_events onDragMouseMove moves s1 of
             Inl err \<Rightarrow> Inl err
           | Inr s2 \<Rightarrow> onDragMouseUp s2 up))"

text \<open>A mouse event on the anchor (node 5) at a position, not on a link or button.\<close>

definition mouse_at :: "int \<Rightarrow> int \<Rightarrow> MouseEvent" where
  "mouse_at x y = \<lparr>ev_target = 5, pageX = x, pageY = y, closest_a_button = None\<rparr>"

text \<open>The invariant of the registry that \<^verbatim>\<open>initModals\<close> builds: no id occurs twice.\<close>

definition distinct_ids :: "registry \<Rightarrow> bool" where
  "distinct_ids r = distinct (map mi_id (fst r))"

section \<open>Facts about the DOM operations\<close>

lemma classList_add_simps [simp]:
  "classList (classList_add c el) = (if c \<in> set (classList el) then classList el else classList el @ [c])"
  "attributes (classList_add c el) = attributes el"
  "style (classList_add c el) = style el"
  "listeners (classList_add c el) = listeners el"
  "clientWidth (classList_add c el) = clientWidth el"
  "clientHeight (classList_add c el) = clientHeight el"
  by (simp_all add: classList_add_def)

lemma classList_remove_simps [simp]:
  "classList (classList_remove c el) = removeAll c (classList el)"
  "attributes (classList_remove c el) = attributes el"
  "style (classList_remove c el) = style el"
  "listeners (classList_remove c el) = listeners el"
  "clientWidth (classList_remove c el) = clientWidth el"
  "clientHeight (classList_remove c el) = clientHeight el"
  by (simp_all add: classList_remove_def)

lemma setAttribute_simps [simp]:
  "classList (setAttribute n v el) = classList el"
  "attributes (setAttribute n v el) = (attributes el)(n \<mapsto> v)"
  "style (setAttribute n v el) = style el"
  "listeners (setAttribute n v el) = listeners el"
  "clientWidth (setAttribute n v el) = clientWidth el"
  "clientHeight (setAttribute n v el) = clientHeight el"
  by (simp_all add: setAttribute_def)

lemma removeAttribute_simps [simp]:
  "classList (removeAttribute n el) = classList el"
  "attributes (removeAttribute n el) = (attributes el)(n := None)"
  "style (removeAttribute n el) = style el"
  "listeners (removeAttribute n el) = listeners el"
  "clientWidth (removeAttribute n el) = clientWidth el"
  "clientHeight (removeAttribute n el) = clientHeight el"
  by (simp_all add: removeAttribute_def)

lemma addEventListener_simps [simp]:
  "classList (addEventListener ty f cap el) = classList el"
  "attributes (addEventListener ty f cap el) = attributes el"
  "style (addEventListener ty f cap el) = style el"
  "listeners (addEventListener ty f cap el) = add_listener (ty, f, cap) (listeners el)"
  "clientWidth (addEventListener ty f cap el) = clientWidth el"
  "clientHeight (addEventListener ty f cap el) = clientHeight el"
  by (simp_all add: addEventListener_def)

lemma removeEventListener_simps [simp]:
  "classList (removeEventListener ty cb cap el) = classList el"
  "attributes (removeEventListener ty cb cap el) = attributes el"
  "style (removeEventListener ty cb cap el) = style el"
  "listeners (removeEventListener ty cb cap el) = remove_listener ty cb cap (listeners el)"
  "clientWidth (removeEventListener ty cb cap el) = clientWidth el"
  "clientHeight (removeEventListener ty cb cap el) = clientHeight el"
  by (simp_all add: removeEventListener_def)

lemma style_set_simps [simp]:
  "classList (style_set p v el) = classList el"
  "attributes (style_set p v el) = attributes el"
  "style (style_set p v el) = (case v of None \<Rightarrow> style el | Some t \<Rightarrow> (style el)(p \<mapsto> t))"
  "listeners (style_set p v el) = listeners el"
  "clientWidth (style_set p v el) = clientWidth el"
  "clientHeight (style_set p v el) = clientHeight el"
  by (simp_all add: style_set_def split: option.splits)

lemma upd_elem_simps [simp]:
  "elems (upd_elem r f e) = (elems e)(r := f (elems e r))"
  "parentNode (upd_elem r f e) = parentNode e"
  "body (upd_elem r f e) = body e"
  "document_listeners (upd_elem r f e) = document_listeners e"
  "backdrops (upd_elem r f e) = backdrops e"
  "next_ref (upd_elem r f e) = next_ref e"
  "next_fn (upd_elem r f e) = next_fn e"
  "querySelector (upd_elem r f e) = querySelector e"
  "querySelectorAll (upd_elem r f e) = querySelectorAll e"
  "getElementById (upd_elem r f e) = getElementById e"
  "calls (upd_elem r f e) = calls e"
  "console (upd_elem r f e) = console e"
  by (simp_all add: upd_elem_def)

lemma invoke_simps [simp]:
  "elems (invoke h cb e) = elems e"
  "parentNode (invoke h cb e) = parentNode e"
  "body (invoke h cb e) = body e"
  "document_listeners (invoke h cb e) = document_listeners e"
  "backdrops (invoke h cb e) = backdrops e"
  "next_ref (invoke h cb e) = next_ref e"
  "next_fn (invoke h cb e) = next_fn e"
  "querySelector (invoke h cb e) = querySelector e"
  "querySelectorAll (invoke h cb e) = querySelectorAll e"
  "getElementById (invoke h cb e) = getElementById e"
  "calls (invoke h cb e) = calls e @ [(h, cb)]"
  "console (invoke h cb e) = console e"
  by (simp_all add: invoke_def)

lemma invocations_invoke [simp]:
  "invocations h (invoke h' cb e) = (if h' = h then Suc (invocations h e) else invocations h e)"
  by (simp add: invocations_def)

subsection \<open>The backdrop\<close>

lemma createBackdrop_visible: "\<not> f_isHidden m \<Longrightarrow> Modal_createBackdrop (m, e) = Inr (m, e)"
  by (simp add: Modal_createBackdrop_def)

lemma createBackdrop_error:
  "f_isHidden m \<Longrightarrow> token_error (split_space (backdropClasses (f_options m))) = Some err
   \<Longrightarrow> Modal_createBackdrop (m, e) = Inl err"
  by (simp add: Modal_createBackdrop_def classList_add_all_def Let_def)

lemma createBackdrop_Inr:
  assumes "Modal_createBackdrop (m, e) = Inr (m', e')"
  shows "m' = (if f_isHidden m then m\<lparr>f_backdropEl := Some (next_ref e)\<rparr> else m)"
    and "body e' = body e" and "calls e' = calls e" and "next_fn e' = next_fn e"
    and "document_listeners e' = document_listeners e"
    and "backdrops e' = (if f_isHidden m then backdrops e @ [next_ref e] else backdrops e)"
    and "next_ref e' = (if f_isHidden m then Suc (next_ref e) else next_ref e)"
    and "r \<noteq> next_ref e \<Longrightarrow> elems e' r = elems e r"
    and "\<not> f_isHidden m \<Longrightarrow> e' = e"
    and "f_isHidden m \<Longrightarrow> token_error (split_space (backdropClasses (f_options m))) = None"
    and "parentNode e' =
           (if f_isHidden m then (parentNode e)(next_ref e \<mapsto> body e) else parentNode e)"
  using assms
  by (auto simp add: Modal_createBackdrop_def classList_add_all_def Let_def
      split: if_splits option.splits sum.splits)

section \<open>Facts about show and hide\<close>

lemma destroyBackdropEl_eq:
  "Modal_destroyBackdropEl (m, e) =
     (if f_isHidden m then Inr (m, e)
      else if backdrops e = [] then Inl TypeError
      else Inr (m, e\<lparr>parentNode := (parentNode e)(hd (backdrops e) := None),
                     backdrops := tl (backdrops e)\<rparr>))"
  by (simp add: Modal_destroyBackdropEl_def split: list.splits)

lemma setup_modal [simp]:
  "fst (Modal_setupModalCloseEventListeners (m, e)) =
     m\<lparr>f_clickOutsideEventListener :=
          (if backdrop (f_options m) = ''dynamic'' then Some (next_fn e)
           else f_clickOutsideEventListener m),
        f_keydownEventListener :=
          Some (if backdrop (f_options m) = ''dynamic'' then Suc (next_fn e) else next_fn e)\<rparr>"
  by (simp add: Modal_setupModalCloseEventListeners_def Let_def)

lemma setup_env [simp]:
  "parentNode (snd (Modal_setupModalCloseEventListeners (m, e))) = parentNode e"
  "body (snd (Modal_setupModalCloseEventListeners (m, e))) = body e"
  "document_listeners (snd (Modal_setupModalCloseEventListeners (m, e))) = document_listeners e"
  "backdrops (snd (Modal_setupModalCloseEventListeners (m, e))) = backdrops e"
  "next_ref (snd (Modal_setupModalCloseEventListeners (m, e))) = next_ref e"
  "calls (snd (Modal_setupModalCloseEventListeners (m, e))) = calls e"
  "console (snd (Modal_setupModalCloseEventListeners (m, e))) = console e"
  "classList (elems (snd (Modal_setupModalCloseEventListeners (m, e))) r) = classList (elems e r)"
  "attributes (elems (snd (Modal_setupModalCloseEventListeners (m, e))) r) = attributes (elems e r)"
  "style (elems (snd (Modal_setupModalCloseEventListeners (m, e))) r) = style (elems e r)"
  by (simp_all add: Modal_setupModalCloseEventListeners_def Let_def)


lemma remove_modal [simp]:
  "fst (Modal_removeModalCloseEventListeners (m, e)) = m"
  by (simp add: Modal_removeModalCloseEventListeners_def Let_def)

lemma remove_env [simp]:
  "parentNode (snd (Modal_removeModalCloseEventListeners (m, e))) = parentNode e"
  "body (snd (Modal_removeModalCloseEventListeners (m, e))) = body e"
  "document_listeners (snd (Modal_removeModalCloseEventListeners (m, e))) = document_listeners e"
  "backdrops (snd (Modal_removeModalCloseEventListeners (m, e))) = backdrops e"
  "next_ref (snd (Modal_removeModalCloseEventListeners (m, e))) = next_ref e"
  "next_fn (snd (Modal_removeModalCloseEventListeners (m, e))) = next_fn e"
  "calls (snd (Modal_removeModalCloseEventListeners (m, e))) = calls e"
  "console (snd (Modal_removeModalCloseEventListeners (m, e))) = console e"
  "classList (elems (snd (Modal_removeModalCloseEventListeners (m, e))) r) = classList (elems e r)"
  "attributes (elems (snd (Modal_removeModalCloseEventListeners (m, e))) r) = attributes (elems e r)"
  "style (elems (snd (Modal_removeModalCloseEventListeners (m, e))) r) = style (elems e r)"
  by (simp_all add: Modal_removeModalCloseEventListeners_def Let_def)

lemma remove_listeners_target:
  "f_targetEl m \<noteq> body e \<Longrightarrow>
   listeners (elems (snd (Modal_removeModalCloseEventListeners (m, e))) (f_targetEl m)) =
     (if backdrop (f_options m) = ''dynamic''
      then remove_listener ''click'' (f_clickOutsideEventListener m) True
             (listeners (elems e (f_targetEl m)))
      else listeners (elems e (f_targetEl m)))"
  by (simp add: Modal_removeModalCloseEventListeners_def Let_def)

lemma setup_if_closable_modal [simp]:
  "f_isHidden (fst (setup_if_closable (m, e))) = f_isHidden m"
  "f_options (fst (setup_if_closable (m, e))) = f_options m"
  "f_targetEl (fst (setup_if_closable (m, e))) = f_targetEl m"
  "f_backdropEl (fst (setup_if_closable (m, e))) = f_backdropEl m"
  by (simp_all add: setup_if_closable_def)

lemma setup_if_closable_env [simp]:
  "parentNode (snd (setup_if_closable (m, e))) = parentNode e"
  "body (snd (setup_if_closable (m, e))) = body e"
  "document_listeners (snd (setup_if_closable (m, e))) = document_listeners e"
  "backdrops (snd (setup_if_closable (m, e))) = backdrops e"
  "next_ref (snd (setup_if_closable (m, e))) = next_ref e"
  "calls (snd (setup_if_closable (m, e))) = calls e"
  "console (snd (setup_if_closable (m, e))) = console e"
  "classList (elems (snd (setup_if_closable (m, e))) r) = classList (elems e r)"
  "attributes (elems (snd (setup_if_closable (m, e))) r) = attributes (elems e r)"
  "style (elems (snd (setup_if_closable (m, e))) r) = style (elems e r)"
  by (simp_all add: setup_if_closable_def)

lemma remove_if_closable_modal [simp]:
  "fst (remove_if_closable (m, e)) = m"
  by (simp add: remove_if_closable_def)

lemma remove_if_closable_env [simp]:
  "parentNode (snd (remove_if_closable (m, e))) = parentNode e"
  "body (snd (remove_if_closable (m, e))) = body e"
  "document_listeners (snd (remove_if_closable (m, e))) = document_listeners e"
  "backdrops (snd (remove_if_closable (m, e))) = backdrops e"
  "next_ref (snd (remove_if_closable (m, e))) = next_ref e"
  "next_fn (snd (remove_if_closable (m, e))) = next_fn e"
  "calls (snd (remove_if_closable (m, e))) = calls e"
  "console (snd (remove_if_closable (m, e))) = console e"
  "classList (elems (snd (remove_if_closable (m, e))) r) = classList (elems e r)"
  "attributes (elems (snd (remove_if_closable (m, e))) r) = attributes (elems e r)"
  "style (elems (snd (remove_if_closable (m, e))) r) = style (elems e r)"
  by (simp_all add: remove_if_closable_def)

lemma Modal_show_eq:
  "Modal_show (m, e) =
     (case Modal_createBackdrop (m, upd_elem (f_targetEl m) show_target e) of
        Inl err \<Rightarrow> Inl err
      | Inr (m1, e6) \<Rightarrow>
          (let s7 = (m1\<lparr>f_isHidden := False\<rparr>, upd_elem (body e6) (classList_add ''overflow-hidden'') e6);
               s8 = (if closable (f_options m1) then Modal_setupModalCloseEventListeners s7 else s7)
           in Inr (fst s8, invoke OnShow (onShow (f_options (fst s8))) (snd s8))))"
  by (simp add: Modal_show_def method_reference_truthy_def Let_def show_target_def upd_elem_def
      case_prod_beta split: sum.splits)

lemma Modal_hide_eq:
  "Modal_hide (m, e) =
     (case Modal_destroyBackdropEl (m, upd_elem (f_targetEl m) hide_target e) of
        Inl err \<Rightarrow> Inl err
      | Inr (m1, e6) \<Rightarrow>
          (let s7 = (m1\<lparr>f_isHidden := True\<rparr>, upd_elem (body e6) (classList_remove ''overflow-hidden'') e6);
               s8 = (if closable (f_options m1) then Modal_removeModalCloseEventListeners s7 else s7)
           in Inr (fst s8, invoke OnHide (onHide (f_options (fst s8))) (snd s8))))"
  by (simp add: Modal_hide_def method_reference_truthy_def Let_def hide_target_def upd_elem_def
      case_prod_beta split: sum.splits)

lemma createBackdrop_hidden:
  "f_isHidden m \<Longrightarrow> token_error (split_space (backdropClasses (f_options m))) = None \<Longrightarrow>
   Modal_createBackdrop (m, e) =
     Inr (m\<lparr>f_backdropEl := Some (next_ref e)\<rparr>,
          e\<lparr>elems := (elems e)(next_ref e :=
                 fold classList_add (split_space (backdropClasses (f_options m)))
                   (setAttribute ''modal-backdrop'' [] blank_element)),
            parentNode := (parentNode e)(next_ref e \<mapsto> body e),
            next_ref := Suc (next_ref e),
            backdrops := backdrops e @ [next_ref e]\<rparr>)"
  by (simp add: Modal_createBackdrop_def classList_add_all_def Let_def upd_elem_def)

lemma Modal_show_eq2:
  "Modal_show (m, e) =
     (case Modal_createBackdrop (m, upd_elem (f_targetEl m) show_target e) of
        Inl err \<Rightarrow> Inl err
      | Inr (m1, e6) \<Rightarrow>
          Inr (fst (setup_if_closable (m1\<lparr>f_isHidden := False\<rparr>,
                       upd_elem (body e6) (classList_add ''overflow-hidden'') e6)),
               invoke OnShow (onShow (f_options m1))
                 (snd (setup_if_closable (m1\<lparr>f_isHidden := False\<rparr>,
                       upd_elem (body e6) (classList_add ''overflow-hidden'') e6)))))"
  by (simp add: Modal_show_eq Let_def setup_if_closable_def split: sum.splits)

lemma Modal_hide_eq2:
  "Modal_hide (m, e) =
     (case Modal_destroyBackdropEl (m, upd_elem (f_targetEl m) hide_target e) of
        Inl err \<Rightarrow> Inl err
      | Inr (m1, e6) \<Rightarrow>
          Inr (m1\<lparr>f_isHidden := True\<rparr>,
               invoke OnHide (onHide (f_options m1))
                 (snd (remove_if_closable (m1\<lparr>f_isHidden := True\<rparr>,
                       upd_elem (body e6) (classList_remove ''overflow-hidden'') e6)))))"
  by (simp add: Modal_hide_eq Let_def remove_if_closable_def split: sum.splits)

lemma Modal_showE:
  assumes "Modal_show (m, e) = Inr (m', e')"
  obtains m1 e6 where
    "Modal_createBackdrop (m, upd_elem (f_targetEl m) show_target e) = Inr (m1, e6)"
    "m' = fst (setup_if_closable (m1\<lparr>f_isHidden := False\<rparr>,
                 upd_elem (body e6) (classList_add ''overflow-hidden'') e6))"
    "e' = invoke OnShow (onShow (f_options m1))
            (snd (setup_if_closable (m1\<lparr>f_isHidden := False\<rparr>,
                 upd_elem (body e6) (classList_add ''overflow-hidden'') e6)))"
proof (cases "Modal_createBackdrop (m, upd_elem (f_targetEl m) show_target e)")
  case (Inl err)
  with assms show ?thesis by (simp add: Modal_show_eq2)
next
  case (Inr s6)
  obtain m1 e6 where s6: "s6 = (m1, e6)" by (cases s6)
  from assms Inr s6 have
    "m' = fst (setup_if_closable (m1\<lparr>f_isHidden := False\<rparr>,
                 upd_elem (body e6) (classList_add ''overflow-hidden'') e6))"
    "e' = invoke OnShow (onShow (f_options m1))
            (snd (setup_if_closable (m1\<lparr>f_isHidden := False\<rparr>,
                 upd_elem (body e6) (classList_add ''overflow-hidden'') e6)))"
    by (simp_all add: Modal_show_eq2)
  with Inr s6 that show ?thesis by blast
qed

lemma show_modal_facts:
  assumes "Modal_show (m, e) = Inr (m', e')"
  shows "f_isHidden m' = False" and "f_options m' = f_options m" and "f_targetEl m' = f_targetEl m"
    and "f_backdropEl m' = (if f_isHidden m then Some (next_ref e) else f_backdropEl m)"
    and "calls e' = calls e @ [(OnShow, onShow (f_options m))]"
    and "body e' = body e"
    and "backdrops e' = (if f_isHidden m then backdrops e @ [next_ref e] else backdrops e)"
proof -
  from assms obtain m1 e6 where
    cb: "Modal_createBackdrop (m, upd_elem (f_targetEl m) show_target e) = Inr (m1, e6)"
    and m': "m' = fst (setup_if_closable (m1\<lparr>f_isHidden := False\<rparr>,
                 upd_elem (body e6) (classList_add ''overflow-hidden'') e6))"
    and e': "e' = invoke OnShow (onShow (f_options m1))
            (snd (setup_if_closable (m1\<lparr>f_isHidden := False\<rparr>,
                 upd_elem (body e6) (classList_add ''overflow-hidden'') e6)))"
    by (rule Modal_showE)
  note cbf = createBackdrop_Inr(1-7) [OF cb]
  show "f_isHidden m' = False" by (simp add: m')
  show "f_options m' = f_options m" by (simp add: m' cbf(1))
  show "f_targetEl m' = f_targetEl m" by (simp add: m' cbf(1))
  show "f_backdropEl m' = (if f_isHidden m then Some (next_ref e) else f_backdropEl m)"
    by (simp add: m' cbf(1))
  show "calls e' = calls e @ [(OnShow, onShow (f_options m))]"
    by (simp add: e' cbf(1) cbf(3))
  show "body e' = body e" by (simp add: e' cbf(2))
  show "backdrops e' = (if f_isHidden m then backdrops e @ [next_ref e] else backdrops e)"
    by (simp add: e' cbf(6))
qed

lemma Modal_hideE:
  assumes "Modal_hide (m, e) = Inr (m', e')"
  obtains m1 e6 where
    "Modal_destroyBackdropEl (m, upd_elem (f_targetEl m) hide_target e) = Inr (m1, e6)"
    "m' = m1\<lparr>f_isHidden := True\<rparr>"
    "e' = invoke OnHide (onHide (f_options m1))
            (snd (remove_if_closable (m1\<lparr>f_isHidden := True\<rparr>,
                 upd_elem (body e6) (classList_remove ''overflow-hidden'') e6)))"
proof (cases "Modal_destroyBackdropEl (m, upd_elem (f_targetEl m) hide_target e)")
  case (Inl err)
  with assms show ?thesis by (simp add: Modal_hide_eq2)
next
  case (Inr s6)
  obtain m1 e6 where s6: "s6 = (m1, e6)" by (cases s6)
  from assms Inr s6 have
    "m' = m1\<lparr>f_isHidden := True\<rparr>"
    "e' = invoke OnHide (onHide (f_options m1))
            (snd (remove_if_closable (m1\<lparr>f_isHidden := True\<rparr>,
                 upd_elem (body e6) (classList_remove ''overflow-hidden'') e6)))"
    by (auto simp add: Modal_hide_eq2)
  with Inr s6 that show ?thesis by blast
qed

lemma destroyBackdropEl_Inr:
  assumes "Modal_destroyBackdropEl (m, e) = Inr (m', e')"
  shows "m' = m" and "body e' = body e" and "calls e' = calls e" and "next_fn e' = next_fn e"
    and "next_ref e' = next_ref e" and "elems e' = elems e"
    and "document_listeners e' = document_listeners e"
    and "backdrops e' = (if f_isHidden m then backdrops e else tl (backdrops e))"
    and "f_isHidden m \<or> backdrops e \<noteq> []"
    and "parentNode e' =
           (if f_isHidden m then parentNode e else (parentNode e)(hd (backdrops e) := None))"
  using assms
  by (auto simp add: destroyBackdropEl_eq split: if_splits)

lemma hide_modal_facts:
  assumes "Modal_hide (m, e) = Inr (m', e')"
  shows "f_isHidden m' = True" and "f_options m' = f_options m" and "f_targetEl m' = f_targetEl m"
    and "f_backdropEl m' = f_backdropEl m"
    and "calls e' = calls e @ [(OnHide, onHide (f_options m))]"
    and "body e' = body e"
    and "backdrops e' = (if f_isHidden m then backdrops e else tl (backdrops e))"
proof -
  from assms obtain m1 e6 where
    db: "Modal_destroyBackdropEl (m, upd_elem (f_targetEl m) hide_target e) = Inr (m1, e6)"
    and m': "m' = m1\<lparr>f_isHidden := True\<rparr>"
    and e': "e' = invoke OnHide (onHide (f_options m1))
            (snd (remove_if_closable (m1\<lparr>f_isHidden := True\<rparr>,
                 upd_elem (body e6) (classList_remove ''overflow-hidden'') e6)))"
    by (rule Modal_hideE)
  note dbf = destroyBackdropEl_Inr [OF db]
  show "f_isHidden m' = True" by (simp add: m')
  show "f_options m' = f_options m" by (simp add: m' dbf(1))
  show "f_targetEl m' = f_targetEl m" by (simp add: m' dbf(1))
  show "f_backdropEl m' = f_backdropEl m" by (simp add: m' dbf(1))
  show "calls e' = calls e @ [(OnHide, onHide (f_options m))]"
    by (simp add: e' dbf(1) dbf(3))
  show "body e' = body e" by (simp add: e' dbf(2))
  show "backdrops e' = (if f_isHidden m then backdrops e else tl (backdrops e))"
    by (simp add: e' dbf(8))
qed

lemma show_succeeds:
  "(\<exists>s'. Modal_show (m, e) = Inr s') =
     (f_isHidden m \<longrightarrow> token_error (split_space (backdropClasses (f_options m))) = None)"
proof (cases "f_isHidden m")
  case False
  then show ?thesis by (simp add: Modal_show_eq2 createBackdrop_visible)
next
  case True
  show ?thesis
  proof (cases "token_error (split_space (backdropClasses (f_options m)))")
    case None
    with True show ?thesis by (simp add: Modal_show_eq2 createBackdrop_hidden)
  next
    case (Some err)
    with True show ?thesis by (simp add: Modal_show_eq2 createBackdrop_error)
  qed
qed

lemma hide_succeeds:
  "(\<exists>s'. Modal_hide (m, e) = Inr s') = (f_isHidden m \<or> backdrops e \<noteq> [])"
  by (simp add: Modal_hide_eq2 destroyBackdropEl_eq)


section \<open>Facts about the example page and toggle\<close>

lemma constructor_on_page: "Modal_constructor page (Some 0) None = Inr (dialog, dialog_page)"
  by (simp add: Modal_constructor_def Modal_init_def Modal_init_resize_def Modal_init_drag_def
      Modal_getPlacementClasses_def Let_def page_def dialog_def dialog_page_def
      getAttribute_def js_string_def upd_elem_def classList_add_def addEventListener_def
      add_listener_def blank_element_def fun_upd_twist spread_def as_partial_def Default_def)

lemma constructor_on_bare_markup:
  "Modal_constructor bare_markup (Some 0) None = Inr (dialog, bare_page)"
  by (simp add: Modal_constructor_def Modal_init_def Modal_init_resize_def Modal_init_drag_def
      Modal_getPlacementClasses_def Let_def page_def dialog_def bare_page_def bare_markup_def
      getAttribute_def js_string_def upd_elem_def classList_add_def addEventListener_def
      add_listener_def blank_element_def fun_upd_twist spread_def as_partial_def Default_def)

lemma constructor_on_page_spaced:
  "Modal_constructor page (Some 0) (Some spaced_options) = Inr (spaced_dialog, dialog_page)"
  by (simp add: Modal_constructor_def Modal_init_def Modal_init_resize_def Modal_init_drag_def
      Modal_getPlacementClasses_def Let_def page_def dialog_def dialog_page_def
      spaced_options_def spaced_dialog_def no_options_def
      getAttribute_def js_string_def upd_elem_def classList_add_def addEventListener_def
      add_listener_def blank_element_def fun_upd_twist spread_def Default_def)

lemma spaced_tokens:
  "split_space ''bg-black '' = [''bg-black'', []]"
  "token_error (split_space ''bg-black '') = Some SyntaxError"
  by code_simp+

lemma default_tokens_ok: "token_error (split_space (backdropClasses Default)) = None"
  by code_simp

lemma invocations_calls:
  "calls e' = calls e @ [(h', cb)] \<Longrightarrow>
   invocations h e' = (if h' = h then Suc (invocations h e) else invocations h e)"
  by (simp add: invocations_def)

lemma Modal_toggle_eq:
  "Modal_toggle (m, e) =
     (case (if f_isHidden m then Modal_show (m, e) else Modal_hide (m, e)) of
        Inl err \<Rightarrow> Inl err
      | Inr (m', e') \<Rightarrow> Inr (m', invoke OnToggle (onToggle (f_options m)) e'))"
proof (cases "f_isHidden m")
  case True
  then show ?thesis
    by (auto simp add: Modal_toggle_def split: sum.splits dest: show_modal_facts(2))
next
  case False
  then show ?thesis
    by (auto simp add: Modal_toggle_def split: sum.splits dest: hide_modal_facts(2))
qed

lemma dialog_simps [simp]:
  "f_isHidden dialog = True" "f_options dialog = Default" "f_targetEl dialog = 0"
  "f_resizeTargetEl dialog = Some 3" "f_dragTargetEl dialog = Some 3"
  "f_currentDragX dialog = Some 0" "f_currentDragY dialog = Some 0"
  "f_dragXBeforeDragging dialog = Some 0" "f_dragYBeforeDragging dialog = Some 0"
  by (simp_all add: dialog_def)

lemma dialog_page_simps [simp]:
  "body dialog_page = 1" "backdrops dialog_page = []" "next_ref dialog_page = 20"
  "next_fn dialog_page = 6" "calls dialog_page = []" "document_listeners dialog_page = []"
  "classList (elems dialog_page 0) = [''hidden'', ''justify-center'', ''items-center'']"
  "attributes (elems dialog_page 0) = [''aria-hidden'' \<mapsto> ''true'', ''id'' \<mapsto> ''dlg'']"
  "listeners (elems dialog_page 0) = []"
  "clientWidth (elems dialog_page 3) = 400" "clientHeight (elems dialog_page 3) = 120"
  by (simp_all add: dialog_page_def page_def blank_element_def)

lemma bare_page_simps [simp]:
  "body bare_page = 1" "backdrops bare_page = [9]" "next_ref bare_page = 20"
  "next_fn bare_page = 6" "calls bare_page = []"
  "classList (elems bare_page 0) = [''fixed'', ''justify-center'', ''items-center'']"
  "attributes (elems bare_page 0) = [''id'' \<mapsto> ''dlg'']"
  "listeners (elems bare_page 0) = []"
  by (simp_all add: bare_page_def bare_markup_def page_def blank_element_def)


section \<open>Facts about the close listeners\<close>

lemma listeners_upd_elem:
  "listeners (elems (upd_elem r f e) r') =
     (if r' = r then listeners (f (elems e r)) else listeners (elems e r'))"
  by simp

lemma show_target_listeners [simp]: "listeners (show_target el) = listeners el"
  by (simp add: show_target_def)

lemma hide_target_listeners [simp]: "listeners (hide_target el) = listeners el"
  by (simp add: hide_target_def)

lemma setup_registers_mouseup:
  "backdrop (f_options m) = ''dynamic'' \<Longrightarrow>
   fst (Modal_setupModalCloseEventListeners (m, e)) =
     m\<lparr>f_clickOutsideEventListener := Some (next_fn e),
       f_keydownEventListener := Some (Suc (next_fn e))\<rparr>
   \<and> (''mouseup'', next_fn e, True)
       \<in> set (listeners (elems (snd (Modal_setupModalCloseEventListeners (m, e))) (f_targetEl m)))"
  by (simp add: Modal_setupModalCloseEventListeners_def Let_def add_listener_def)

lemma remove_keeps_listener:
  "(ty, f, cap) \<in> set (listeners (elems e r)) \<Longrightarrow> ty \<noteq> ''click'' \<Longrightarrow> ty \<noteq> ''keydown'' \<Longrightarrow>
   (ty, f, cap) \<in> set (listeners (elems (snd (remove_if_closable (m, e))) r))"
  by (auto simp add: remove_if_closable_def Modal_removeModalCloseEventListeners_def Let_def
      remove_listener_def split: option.splits)

lemma hide_keeps_listener:
  assumes "Modal_hide (m, e) = Inr (m', e')"
    and "(ty, f, cap) \<in> set (listeners (elems e r))" and "ty \<noteq> ''click''" and "ty \<noteq> ''keydown''"
  shows "(ty, f, cap) \<in> set (listeners (elems e' r))"
proof -
  from assms(1) obtain m1 e6 where
    db: "Modal_destroyBackdropEl (m, upd_elem (f_targetEl m) hide_target e) = Inr (m1, e6)"
    and e': "e' = invoke OnHide (onHide (f_options m1))
            (snd (remove_if_closable (m1\<lparr>f_isHidden := True\<rparr>,
                 upd_elem (body e6) (classList_remove ''overflow-hidden'') e6)))"
    by (rule Modal_hideE)
  from destroyBackdropEl_Inr(6) [OF db] assms(2)
  have "(ty, f, cap) \<in> set (listeners (elems (upd_elem (body e6) (classList_remove ''overflow-hidden'') e6) r))"
    by auto
  from remove_keeps_listener [OF this assms(3,4)] show ?thesis
    by (simp add: e')
qed

lemma show_registers_mouseup:
  assumes "Modal_show (m, e) = Inr (m', e')"
    and "closable (f_options m)" and "backdrop (f_options m) = ''dynamic''"
  shows "f_clickOutsideEventListener m' = Some (next_fn e)"
    and "(''mouseup'', next_fn e, True) \<in> set (listeners (elems e' (f_targetEl m)))"
proof -
  from assms(1) obtain m1 e6 where
    cb: "Modal_createBackdrop (m, upd_elem (f_targetEl m) show_target e) = Inr (m1, e6)"
    and m': "m' = fst (setup_if_closable (m1\<lparr>f_isHidden := False\<rparr>,
                 upd_elem (body e6) (classList_add ''overflow-hidden'') e6))"
    and e': "e' = invoke OnShow (onShow (f_options m1))
            (snd (setup_if_closable (m1\<lparr>f_isHidden := False\<rparr>,
                 upd_elem (body e6) (classList_add ''overflow-hidden'') e6)))"
    by (rule Modal_showE)
  note cbf = createBackdrop_Inr(1-7) [OF cb]
  have opts: "f_options m1 = f_options m" and tgt: "f_targetEl m1 = f_targetEl m"
    by (simp_all add: cbf(1))
  have fn: "next_fn e6 = next_fn e"
    using cbf(4) by simp
  let ?s7 = "(m1\<lparr>f_isHidden := False\<rparr>, upd_elem (body e6) (classList_add ''overflow-hidden'') e6)"
  have dyn: "backdrop (f_options (m1\<lparr>f_isHidden := False\<rparr>)) = ''dynamic''"
    using assms(3) opts by simp
  have sic: "setup_if_closable ?s7 = Modal_setupModalCloseEventListeners ?s7"
    using assms(2) opts by (simp add: setup_if_closable_def)
  from setup_registers_mouseup [OF dyn, of "upd_elem (body e6) (classList_add ''overflow-hidden'') e6"]
  show "f_clickOutsideEventListener m' = Some (next_fn e)"
    by (simp add: m' sic fn del: setup_modal)
  from setup_registers_mouseup [OF dyn, of "upd_elem (body e6) (classList_add ''overflow-hidden'') e6"]
  show "(''mouseup'', next_fn e, True) \<in> set (listeners (elems e' (f_targetEl m)))"
    by (simp add: e' sic fn tgt del: setup_modal)
qed


subsection \<open>Delivery of a mouse-up\<close>

lemma ancestor_within_unfold:
  "ancestor_within n p a x =
     (a = x \<or> (n \<noteq> 0 \<and> (case p x of None \<Rightarrow> False | Some y \<Rightarrow> ancestor_within (n - 1) p a y)))"
  by (cases n) (auto split: option.splits)



lemma contains_self [simp]: "contains e a a"
  by (simp add: contains_def ancestor_within_unfold [of _ _ a a])





lemma dialog_page_parents [simp]:
  "parentNode dialog_page 0 = Some 1" "parentNode dialog_page 1 = None"
  "parentNode dialog_page (Suc 0) = None" "parentNode dialog_page 3 = Some 0"
  by (simp_all add: dialog_page_def page_def)



section \<open>Facts about the target element across show and hide\<close>

lemma show_target_element:
  assumes "Modal_show (m, e) = Inr (m', e')"
    and "f_targetEl m \<noteq> body e" and "f_targetEl m \<noteq> next_ref e"
  shows "classList (elems e' (f_targetEl m)) = classList (show_target (elems e (f_targetEl m)))"
    and "attributes (elems e' (f_targetEl m)) = attributes (show_target (elems e (f_targetEl m)))"
proof -
  from assms(1) obtain m1 e6 where
    cb: "Modal_createBackdrop (m, upd_elem (f_targetEl m) show_target e) = Inr (m1, e6)"
    and e': "e' = invoke OnShow (onShow (f_options m1))
            (snd (setup_if_closable (m1\<lparr>f_isHidden := False\<rparr>,
                 upd_elem (body e6) (classList_add ''overflow-hidden'') e6)))"
    by (rule Modal_showE)
  have b: "body e6 = body e" using createBackdrop_Inr(2) [OF cb] by simp
  have el: "elems e6 (f_targetEl m) = show_target (elems e (f_targetEl m))"
    using createBackdrop_Inr(8) [OF cb, of "f_targetEl m"] assms(3) by simp
  show "classList (elems e' (f_targetEl m)) = classList (show_target (elems e (f_targetEl m)))"
    using assms(2) by (simp add: e' b el)
  show "attributes (elems e' (f_targetEl m)) = attributes (show_target (elems e (f_targetEl m)))"
    using assms(2) by (simp add: e' b el)
qed

lemma hide_target_element:
  assumes "Modal_hide (m, e) = Inr (m', e')"
    and "f_targetEl m \<noteq> body e"
  shows "classList (elems e' (f_targetEl m)) = classList (hide_target (elems e (f_targetEl m)))"
    and "attributes (elems e' (f_targetEl m)) = attributes (hide_target (elems e (f_targetEl m)))"
proof -
  from assms(1) obtain m1 e6 where
    db: "Modal_destroyBackdropEl (m, upd_elem (f_targetEl m) hide_target e) = Inr (m1, e6)"
    and e': "e' = invoke OnHide (onHide (f_options m1))
            (snd (remove_if_closable (m1\<lparr>f_isHidden := True\<rparr>,
                 upd_elem (body e6) (classList_remove ''overflow-hidden'') e6)))"
    by (rule Modal_hideE)
  have b: "body e6 = body e" using destroyBackdropEl_Inr(2) [OF db] by simp
  have el: "elems e6 (f_targetEl m) = hide_target (elems e (f_targetEl m))"
    using destroyBackdropEl_Inr(6) [OF db] by simp
  show "classList (elems e' (f_targetEl m)) = classList (hide_target (elems e (f_targetEl m)))"
    using assms(2) by (simp add: e' b el)
  show "attributes (elems e' (f_targetEl m)) = attributes (hide_target (elems e (f_targetEl m)))"
    using assms(2) by (simp add: e' b el)
qed

lemma show_then_hide_target:
  assumes s1: "Modal_show (m, e) = Inr (m1, e1)" and s2: "Modal_hide (m1, e1) = Inr (m2, e2)"
    and nb: "f_targetEl m \<noteq> body e" and fresh: "f_targetEl m \<noteq> next_ref e"
  shows "classList (elems e2 (f_targetEl m)) =
           classList (hide_target (show_target (elems e (f_targetEl m))))"
    and "attributes (elems e2 (f_targetEl m)) =
           attributes (hide_target (show_target (elems e (f_targetEl m))))"
proof -
  note f1 = show_modal_facts [OF s1]
  from nb f1(3,6) have nb1: "f_targetEl m1 \<noteq> body e1" by simp
  note h = hide_target_element [OF s2 nb1]
  note s = show_target_element [OF s1 nb fresh]
  show "classList (elems e2 (f_targetEl m)) =
           classList (hide_target (show_target (elems e (f_targetEl m))))"
    using h(1) s f1(3) by (simp add: hide_target_def)
  show "attributes (elems e2 (f_targetEl m)) =
           attributes (hide_target (show_target (elems e (f_targetEl m))))"
    using h(2) s f1(3) by (simp add: hide_target_def)
qed

lemma show_then_hide_classList:
  "classList (hide_target (show_target el)) =
     removeAll ''flex'' (removeAll ''hidden'' (classList el)) @ [''hidden'']"
  by (simp add: hide_target_def show_target_def)

lemma show_then_hide_attributes:
  "attributes (hide_target (show_target el)) =
     (attributes el)(''aria-hidden'' \<mapsto> ''true'', ''aria-modal'' := None, ''role'' := None)"
  by (auto simp add: hide_target_def show_target_def fun_eq_iff)


section \<open>Facts about the constructor\<close>

lemma init_resize_facts:
  assumes "Modal_init_resize (m, e) = Inr (m', e')"
  shows "f_options m' = f_options m" and "f_targetEl m' = f_targetEl m"
    and "f_isHidden m' = f_isHidden m"
    and "classList (elems e' r) = classList (elems e r)"
    and "querySelector e' = querySelector e"
  using assms
  by (auto simp add: Modal_init_resize_def Let_def split: sum.splits option.splits)

lemma init_drag_facts:
  assumes "Modal_init_drag (m, e) = Inr (m', e')"
  shows "f_options m' = f_options m" and "f_targetEl m' = f_targetEl m"
    and "f_isHidden m' = f_isHidden m"
    and "classList (elems e' r) = classList (elems e r)"
    and "querySelector e' = querySelector e"
  using assms
  by (auto simp add: Modal_init_drag_def Let_def split: sum.splits option.splits)

lemma fold_upd_elem:
  "fold (\<lambda>c. upd_elem t (f c)) cs e = upd_elem t (fold f cs) e"
proof (induction cs arbitrary: e)
  case Nil
  show ?case by (simp add: upd_elem_def)
next
  case (Cons c cs)
  show ?case by (simp add: Cons.IH)
qed

lemma init_facts:
  assumes "Modal_init (m, e) = Inr (m', e')"
  shows "f_options m' = f_options m" and "f_targetEl m' = f_targetEl m"
    and "f_isHidden m' = f_isHidden m"
    and "classList (elems e' (f_targetEl m)) =
           classList (fold classList_add (Modal_getPlacementClasses m) (elems e (f_targetEl m)))"
proof -
  from assms obtain m2 e2 where
    r: "Modal_init_resize (m, upd_elem (f_targetEl m)
          (fold classList_add (Modal_getPlacementClasses m)) e) = Inr (m2, e2)"
    and d: "Modal_init_drag (m2, e2) = Inr (m', e')"
    by (auto simp add: Modal_init_def Let_def fold_upd_elem split: sum.splits)
  note rf = init_resize_facts [OF r]
  note df = init_drag_facts [OF d]
  show "f_options m' = f_options m" by (simp add: rf df)
  show "f_targetEl m' = f_targetEl m" by (simp add: rf df)
  show "f_isHidden m' = f_isHidden m" by (simp add: rf df)
  show "classList (elems e' (f_targetEl m)) =
           classList (fold classList_add (Modal_getPlacementClasses m) (elems e (f_targetEl m)))"
    by (simp add: rf(4) df(4))
qed

lemma init_succeeds:
  assumes q: "\<And>sel err. querySelector e (f_targetEl m) sel \<noteq> Inl err"
  shows "\<exists>m' e'. Modal_init (m, e) = Inr (m', e')"
proof -
  let ?e1 = "upd_elem (f_targetEl m) (fold classList_add (Modal_getPlacementClasses m)) e"
  have q1: "querySelector ?e1 (f_targetEl m) sel \<noteq> Inl err" for sel err
    using q by simp
  obtain m2 e2 where r: "Modal_init_resize (m, ?e1) = Inr (m2, e2)"
    using q1
    by (cases "Modal_init_resize (m, ?e1)")
       (auto simp add: Modal_init_resize_def Let_def split: sum.splits option.splits)
  note rf = init_resize_facts [OF r]
  have q2: "querySelector e2 (f_targetEl m2) sel \<noteq> Inl err" for sel err
    using q1 by (simp add: rf)
  obtain m3 e3 where d: "Modal_init_drag (m2, e2) = Inr (m3, e3)"
    using q2
    by (cases "Modal_init_drag (m2, e2)")
       (auto simp add: Modal_init_drag_def Let_def split: sum.splits option.splits)
  from r d show ?thesis
    by (simp add: Modal_init_def Let_def fold_upd_elem)
qed

lemma constructor_facts:
  assumes "Modal_constructor e (Some t) opts = Inr (m, e')"
  shows "f_options m = spread Default (case opts of None \<Rightarrow> as_partial Default | Some p \<Rightarrow> p)"
    and "f_targetEl m = t" and "f_isHidden m"
    and "classList (elems e' t) = classList (fold classList_add (Modal_getPlacementClasses m) (elems e t))"
proof -
  let ?m0 = "\<lparr>f_targetEl = t,
               f_options = spread Default
                 (case opts of None \<Rightarrow> as_partial Default | Some p \<Rightarrow> p),
               f_isHidden = True,
               f_backdropEl = None,
               f_clickOutsideEventListener = None,
               f_keydownEventListener = None,
               f_resizeTargetEl = None,
               f_modalWidthBeforeResize = None,
               f_modalHeightBeforeResize = None,
               f_resizeMouseDownX = None,
               f_resizeMouseDownY = None,
               f_dragAnchorEl = None,
               f_dragTargetEl = None,
               f_dragXBeforeDragging = Some 0,
               f_dragYBeforeDragging = Some 0,
               f_currentDragX = Some 0,
               f_currentDragY = Some 0,
               f_dragMouseDownX = None,
               f_dragMouseDownY = None,
               f_onResizeMouseDown = next_fn e,
               f_onResizeMouseMove = next_fn e + 1,
               f_onResizeMouseUp = next_fn e + 2,
               f_onDragMouseDown = next_fn e + 3,
               f_onDragMouseMove = next_fn e + 4,
               f_onDragMouseUp = next_fn e + 5\<rparr>"
  from assms have i: "Modal_init (?m0, e\<lparr>next_fn := next_fn e + 6\<rparr>) = Inr (m, e')"
    by (simp add: Modal_constructor_def Let_def)
  note f = init_facts [OF i]
  show "f_options m = spread Default (case opts of None \<Rightarrow> as_partial Default | Some p \<Rightarrow> p)"
    using f(1) by simp
  show "f_targetEl m = t" using f(2) by simp
  show "f_isHidden m" using f(3) by simp
  have "Modal_getPlacementClasses m = Modal_getPlacementClasses ?m0"
    using f(1) by (simp add: Modal_getPlacementClasses_def)
  then show "classList (elems e' t) = classList (fold classList_add (Modal_getPlacementClasses m) (elems e t))"
    using f(4) by simp
qed

lemma constructor_succeeds:
  assumes "\<And>sel err. querySelector e t sel \<noteq> Inl err"
  shows "\<exists>m e'. Modal_constructor e (Some t) opts = Inr (m, e')"
  using assms
  by (simp add: Modal_constructor_def Let_def init_succeeds)

lemma constructor_on_page_top_left:
  "\<exists>m e'. Modal_constructor page (Some 0)
            (Some (no_options\<lparr>placement_key := Some ''top-left''\<rparr>)) = Inr (m, e')"
  by (rule constructor_succeeds) (simp add: page_def)

lemma spread_Default_Default [simp]: "spread Default (as_partial Default) = Default"
  by (simp add: spread_def as_partial_def Default_def)


section \<open>Facts about the resize and drag handlers\<close>

lemma run_events_append:
  "run_events h (xs @ ys) s =
     (case run_events h xs s of Inl err \<Rightarrow> Inl err | Inr s' \<Rightarrow> run_events h ys s')"
  by (induction xs arbitrary: s) (auto split: sum.splits)

lemma resize_move_step:
  assumes "f_resizeTargetEl m = Some rt"
  shows "onResizeMouseMove (m, e) ev =
     Inr (m, upd_elem rt (style_set ''maxWidth'' (Some ''100%''))
               (upd_elem rt (style_set ''height''
                  (px (Math_max (Some MinResizeHeight)
                     (num_add (f_modalHeightBeforeResize m)
                        (num_sub (Some (pageY ev)) (f_resizeMouseDownY m))))))
                  (upd_elem rt (style_set ''width''
                     (px (Math_max (Some MinResizeWidth)
                        (num_add (f_modalWidthBeforeResize m)
                           (num_sub (Some (pageX ev)) (f_resizeMouseDownX m)))))) e)))"
  using assms by (simp add: onResizeMouseMove_def Let_def)

lemma resize_moves_keep_modal:
  assumes "f_resizeTargetEl m = Some rt"
  shows "\<exists>e'. run_events onResizeMouseMove evs (m, e) = Inr (m, e')"
  using assms
proof (induction evs arbitrary: e)
  case Nil
  show ?case by simp
next
  case (Cons ev evs)
  from Cons.prems show ?case
    by (simp add: resize_move_step Cons.IH)
qed

lemma string_of_int_examples:
  "string_of_int 200 = ''200''" "string_of_int 100 = ''100''" "string_of_int 350 = ''350''"
  "string_of_int 40 = ''40''" "string_of_int 35 = ''35''" "string_of_int 30 = ''30''"
  "string_of_int (- 5) = ''-5''"
  by code_simp+

lemma drag_move_step:
  assumes "f_dragTargetEl m = Some dt"
    and "f_dragXBeforeDragging m = Some bx" and "f_dragYBeforeDragging m = Some by"
    and "f_dragMouseDownX m = Some x0" and "f_dragMouseDownY m = Some y0"
  shows "onDragMouseMove (m, e) ev =
     Inr (m\<lparr>f_currentDragX := Some (bx + (pageX ev - x0)),
            f_currentDragY := Some (by + (pageY ev - y0))\<rparr>,
          upd_elem dt (style_set ''transform''
            (translate (Some (bx + (pageX ev - x0))) (Some (by + (pageY ev - y0))))) e)"
  using assms by (simp add: onDragMouseMove_def Let_def num_add_def num_sub_def)

lemma drag_moves:
  assumes "f_dragTargetEl m = Some dt"
    and "f_dragXBeforeDragging m = Some bx" and "f_dragYBeforeDragging m = Some by"
    and "f_dragMouseDownX m = Some x0" and "f_dragMouseDownY m = Some y0"
  shows "\<exists>m' e'. run_events onDragMouseMove evs (m, e) = Inr (m', e')
     \<and> f_dragTargetEl m' = Some dt
     \<and> f_dragXBeforeDragging m' = Some bx \<and> f_dragYBeforeDragging m' = Some by
     \<and> f_dragMouseDownX m' = Some x0 \<and> f_dragMouseDownY m' = Some y0
     \<and> (evs = [] \<longrightarrow> m' = m \<and> e' = e)
     \<and> (evs \<noteq> [] \<longrightarrow>
          f_currentDragX m' = Some (bx + (pageX (last evs) - x0))
        \<and> f_currentDragY m' = Some (by + (pageY (last evs) - y0))
        \<and> style (elems e' dt) ''transform'' =
            translate (Some (bx + (pageX (last evs) - x0))) (Some (by + (pageY (last evs) - y0))))"
  using assms
proof (induction evs arbitrary: m e)
  case Nil
  then show ?case by simp
next
  case (Cons ev evs)
  let ?m1 = "m\<lparr>f_currentDragX := Some (bx + (pageX ev - x0)),
                f_currentDragY := Some (by + (pageY ev - y0))\<rparr>"
  let ?e1 = "upd_elem dt (style_set ''transform''
            (translate (Some (bx + (pageX ev - x0))) (Some (by + (pageY ev - y0))))) e"
  have step: "onDragMouseMove (m, e) ev = Inr (?m1, ?e1)"
    by (rule drag_move_step) (use Cons.prems in simp_all)
  have p: "f_dragTargetEl ?m1 = Some dt"
    "f_dragXBeforeDragging ?m1 = Some bx" "f_dragYBeforeDragging ?m1 = Some by"
    "f_dragMouseDownX ?m1 = Some x0" "f_dragMouseDownY ?m1 = Some y0"
    using Cons.prems by simp_all
  from Cons.IH [OF p, of ?e1] obtain m' e' where
    r: "run_events onDragMouseMove evs (?m1, ?e1) = Inr (m', e')"
    and k: "f_dragTargetEl m' = Some dt"
      "f_dragXBeforeDragging m' = Some bx" "f_dragYBeforeDragging m' = Some by"
      "f_dragMouseDownX m' = Some x0" "f_dragMouseDownY m' = Some y0"
    and n: "evs = [] \<longrightarrow> m' = ?m1 \<and> e' = ?e1"
    and c: "evs \<noteq> [] \<longrightarrow>
          f_currentDragX m' = Some (bx + (pageX (last evs) - x0))
        \<and> f_currentDragY m' = Some (by + (pageY (last evs) - y0))
        \<and> style (elems e' dt) ''transform'' =
            translate (Some (bx + (pageX (last evs) - x0))) (Some (by + (pageY (last evs) - y0)))"
    by blast
  have run: "run_events onDragMouseMove (ev # evs) (m, e) = Inr (m', e')"
    by (simp add: step r)
  have fin: "f_currentDragX m' = Some (bx + (pageX (last (ev # evs)) - x0))
        \<and> f_currentDragY m' = Some (by + (pageY (last (ev # evs)) - y0))
        \<and> style (elems e' dt) ''transform'' =
            translate (Some (bx + (pageX (last (ev # evs)) - x0)))
              (Some (by + (pageY (last (ev # evs)) - y0)))"
  proof (cases "evs = []")
    case True
    with n show ?thesis by (simp add: translate_def)
  next
    case False
    with c show ?thesis by simp
  qed
  from run k fin show ?case by blast
qed


section \<open>Facts about the registry of instances\<close>

lemma list_ex_find: "\<not> list_ex P xs \<Longrightarrow> find P xs = None"
  by (induction xs) auto

lemma getModalInstance_find:
  "getModalInstance i instances = find (\<lambda>modalInstance. mi_id modalInstance = i) instances"
  by (simp add: getModalInstance_def list_ex_find)

lemma getModalInstance_None:
  "(getModalInstance i instances = None) = (i \<notin> set (map mi_id instances))"
  by (auto simp add: getModalInstance_find find_None_iff)

lemma getModalInstance_first:
  assumes "instances = before @ inst # rest" and "mi_id inst = i"
    and "i \<notin> set (map mi_id before)"
  shows "getModalInstance i instances = Some inst"
  using assms(3) unfolding assms(1) getModalInstance_find
  by (induction before) (auto simp add: assms(2))

lemma target_step_distinct:
  assumes "target_step triggerEl (instances, e) = Inr (instances', e')"
    and "distinct (map mi_id instances)"
  shows "distinct (map mi_id instances')"
  using assms
  by (auto simp add: target_step_def Let_def getModalInstance_None
      split: option.splits if_splits sum.splits)

lemma toggle_step_distinct:
  assumes "toggle_step triggerEl (instances, e) = Inr (instances', e')"
    and "distinct (map mi_id instances)"
  shows "distinct (map mi_id instances')"
  using assms
  by (auto simp add: toggle_step_def Let_def getModalInstance_None
      split: option.splits if_splits sum.splits)

lemma show_hide_step_same:
  assumes "show_hide_step attr triggerEl (instances, e) = Inr (instances', e')"
  shows "instances' = instances"
  using assms
  by (auto simp add: show_hide_step_def Let_def split: option.splits)

lemma forEach_invariant:
  assumes step: "\<And>x s s'. f x s = Inr s' \<Longrightarrow> P s \<Longrightarrow> P s'"
    and "forEach f xs s = Inr s'" and "P s"
  shows "P s'"
  using assms(2,3)
proof (induction xs arbitrary: s)
  case Nil
  then show ?case by simp
next
  case (Cons x xs)
  from Cons.prems(1) obtain s1 where a: "f x s = Inr s1" and b: "forEach f xs s1 = Inr s'"
    by (auto split: sum.splits)
  from step [OF a Cons.prems(2)] have "P s1" .
  with Cons.IH [OF b] show ?case .
qed

lemma steps_keep_distinct_ids:
  "target_step x r = Inr r' \<Longrightarrow> distinct_ids r \<Longrightarrow> distinct_ids r'"
  "toggle_step x r = Inr r' \<Longrightarrow> distinct_ids r \<Longrightarrow> distinct_ids r'"
  "show_hide_step attr x r = Inr r' \<Longrightarrow> distinct_ids r \<Longrightarrow> distinct_ids r'"
  unfolding distinct_ids_def
  by (cases r; cases r'; simp; erule (1) target_step_distinct toggle_step_distinct
        | cases r; cases r'; simp; drule show_hide_step_same; simp)+

lemma initModals_upto_distinct:
  assumes "initModals_upto n1 n2 n3 n4 e = Inr r"
  shows "distinct_ids r"
proof -
  from assms obtain r1 r2 r3 where
    a: "forEach target_step (take n1 (querySelectorAll e ''[data-modal-target]'')) ([], e) = Inr r1"
    and b: "forEach toggle_step (take n2 (querySelectorAll e ''[data-modal-toggle]'')) r1 = Inr r2"
    and c: "forEach (show_hide_step ''data-modal-show'')
              (take n3 (querySelectorAll e ''[data-modal-show]'')) r2 = Inr r3"
    and d: "forEach (show_hide_step ''data-modal-hide'')
              (take n4 (querySelectorAll e ''[data-modal-hide]'')) r3 = Inr r"
    by (auto simp add: initModals_upto_def split: sum.splits)
  have "distinct_ids ([], e)" by (simp add: distinct_ids_def)
  with a have "distinct_ids r1"
    by (rule forEach_invariant [where P = distinct_ids, rotated 1]) (rule steps_keep_distinct_ids)
  with b have "distinct_ids r2"
    by (rule forEach_invariant [where P = distinct_ids, rotated 1]) (rule steps_keep_distinct_ids)
  with c have "distinct_ids r3"
    by (rule forEach_invariant [where P = distinct_ids, rotated 1]) (rule steps_keep_distinct_ids)
  with d show "distinct_ids r"
    by (rule forEach_invariant [where P = distinct_ids, rotated 1]) (rule steps_keep_distinct_ids)
qed

lemma initModals_is_upto:
  "initModals e =
     initModals_upto (length (querySelectorAll e ''[data-modal-target]''))
       (length (querySelectorAll e ''[data-modal-toggle]''))
       (length (querySelectorAll e ''[data-modal-show]''))
       (length (querySelectorAll e ''[data-modal-hide]'')) e"
  by (simp add: initModals_def initModals_upto_def cong: sum.case_cong)

lemma registered_id_reuses:
  assumes "getModalInstance (getAttribute e triggerEl attr) instances = Some inst"
  shows "attr = ''data-modal-target'' \<Longrightarrow>
           getElementById e (js_string (getAttribute e triggerEl attr)) \<noteq> None \<Longrightarrow>
           target_step triggerEl (instances, e) = Inr (instances, e)"
    and "attr = ''data-modal-toggle'' \<Longrightarrow>
           getElementById e (js_string (getAttribute e triggerEl attr)) \<noteq> None \<Longrightarrow>
           toggle_step triggerEl (instances, e) = Inr (instances, add_click_listener triggerEl e)"
  using assms
  by (auto simp add: target_step_def toggle_step_def Let_def)

lemma initModals_on_page:
  "map_sum id (\<lambda>r. map mi_id (fst r)) (initModals page) = Inr [Some ''dlg'']"
  by code_simp


section \<open>The claims\<close>

subsection \<open>C1: the guards of show and hide\<close>

text \<open>
  C1 says that \<^verbatim>\<open>show()\<close> on a visible modal and \<^verbatim>\<open>hide()\<close> on a hidden one do nothing
  and do not invoke their callbacks. The code does otherwise: the guards test the method
  objects \<^verbatim>\<open>this.isHidden\<close> and \<^verbatim>\<open>this.isVisible\<close>, which are always truthy, so
  \<^verbatim>\<open>show()\<close> on a visible modal returns having invoked \<^verbatim>\<open>onShow\<close> once more, and
  \<^verbatim>\<open>hide()\<close> on a hidden modal returns having invoked \<^verbatim>\<open>onHide\<close> once more.
\<close>

theorem show_while_visible_runs_again:
  "(\<not> f_isHidden m \<longrightarrow>
      (\<exists>m' e'. Modal_show (m, e) = Inr (m', e')
         \<and> invocations OnShow e' = Suc (invocations OnShow e)))
   \<and> (f_isHidden m \<longrightarrow>
      (\<exists>m' e'. Modal_hide (m, e) = Inr (m', e')
         \<and> invocations OnHide e' = Suc (invocations OnHide e)))"
proof (intro conjI impI)
  assume "\<not> f_isHidden m"
  with show_succeeds [of m e] obtain m' e' where s: "Modal_show (m, e) = Inr (m', e')" by auto
  from show_modal_facts(5) [OF s] have "invocations OnShow e' = Suc (invocations OnShow e)"
    by (simp add: invocations_def)
  with s show "\<exists>m' e'. Modal_show (m, e) = Inr (m', e')
         \<and> invocations OnShow e' = Suc (invocations OnShow e)" by blast
next
  assume "f_isHidden m"
  with hide_succeeds [of m e] obtain m' e' where s: "Modal_hide (m, e) = Inr (m', e')" by auto
  from hide_modal_facts(5) [OF s] have "invocations OnHide e' = Suc (invocations OnHide e)"
    by (simp add: invocations_def)
  with s show "\<exists>m' e'. Modal_hide (m, e) = Inr (m', e')
         \<and> invocations OnHide e' = Suc (invocations OnHide e)" by blast
qed

theorem show_while_visible_runs_again_witness:
  "\<exists>m1 e1 m2 e2 m3 e3. Modal_show (dialog, dialog_page) = Inr (m1, e1) \<and> \<not> f_isHidden m1
     \<and> invocations OnShow e1 = 1
     \<and> Modal_show (m1, e1) = Inr (m2, e2) \<and> invocations OnShow e2 = 2
     \<and> Modal_hide (dialog, dialog_page) = Inr (m3, e3) \<and> invocations OnHide e3 = 1"
proof -
  from show_succeeds [of dialog dialog_page] obtain m1 e1 where
    s1: "Modal_show (dialog, dialog_page) = Inr (m1, e1)"
    by (auto simp add: default_tokens_ok)
  from show_modal_facts(1,5) [OF s1] have v: "\<not> f_isHidden m1" and c1: "invocations OnShow e1 = 1"
    by (simp_all add: invocations_def)
  from show_while_visible_runs_again [of m1 e1] v c1 obtain m2 e2 where
    "Modal_show (m1, e1) = Inr (m2, e2)" "invocations OnShow e2 = 2"
    by auto
  moreover
  have "invocations OnHide dialog_page = 0" by (simp add: invocations_def)
  with show_while_visible_runs_again [of dialog dialog_page] obtain m3 e3 where
    "Modal_hide (dialog, dialog_page) = Inr (m3, e3)" "invocations OnHide e3 = 1"
    by auto
  ultimately show ?thesis using s1 v c1 by blast
qed


subsection \<open>C2: the listeners after hide\<close>

text \<open>
  C2 says that every listener registered by \<^verbatim>\<open>show()\<close> is removed by the matching
  \<^verbatim>\<open>hide()\<close>. The code does otherwise for the outside-click listener: it is registered
  for \<^verbatim>\<open>mouseup\<close> and removed for \<^verbatim>\<open>click\<close>, so for a closable modal with the dynamic
  backdrop the \<^verbatim>\<open>mouseup\<close> listener that \<^verbatim>\<open>show()\<close> put on the target element is
  still there when \<^verbatim>\<open>hide()\<close> has returned.
\<close>

theorem mouseup_listener_survives_hide:
  assumes "closable (f_options m)" and "backdrop (f_options m) = ''dynamic''"
    and "Modal_show (m, e) = Inr (m1, e1)" and "Modal_hide (m1, e1) = Inr (m2, e2)"
  shows "f_clickOutsideEventListener m1 = Some (next_fn e)
     \<and> (''mouseup'', next_fn e, True) \<in> set (listeners (elems e1 (f_targetEl m)))
     \<and> (''mouseup'', next_fn e, True) \<in> set (listeners (elems e2 (f_targetEl m)))"
proof -
  note reg = show_registers_mouseup [OF assms(3) assms(1) assms(2)]
  from hide_keeps_listener [OF assms(4) reg(2)] have
    "(''mouseup'', next_fn e, True) \<in> set (listeners (elems e2 (f_targetEl m)))"
    by simp
  with reg show ?thesis by simp
qed

theorem mouseup_listener_survives_hide_witness:
  "\<exists>m1 e1 m2 e2. Modal_show (dialog, dialog_page) = Inr (m1, e1) \<and> Modal_hide (m1, e1) = Inr (m2, e2)
     \<and> f_isHidden m2
     \<and> listeners (elems dialog_page 0) = []
     \<and> (''mouseup'', 6, True) \<in> set (listeners (elems e2 0))"
proof -
  from show_succeeds [of dialog dialog_page] obtain m1 e1 where
    s1: "Modal_show (dialog, dialog_page) = Inr (m1, e1)"
    by (auto simp add: default_tokens_ok)
  from show_modal_facts(7) [OF s1] have "backdrops e1 \<noteq> []" by simp
  with hide_succeeds [of m1 e1] obtain m2 e2 where
    s2: "Modal_hide (m1, e1) = Inr (m2, e2)" by auto
  have c: "closable (f_options dialog)" and d: "backdrop (f_options dialog) = ''dynamic''"
    by (simp_all add: Default_def)
  from mouseup_listener_survives_hide [OF c d s1 s2]
  have "(''mouseup'', 6, True) \<in> set (listeners (elems e2 0))"
    by simp
  moreover have "listeners (elems dialog_page 0) = []" by simp
  moreover from hide_modal_facts(1) [OF s2] have "f_isHidden m2" by simp
  ultimately show ?thesis using s1 s2 by blast
qed

subsection \<open>C3: show followed by hide\<close>

text \<open>
  C3, as amended. \<^verbatim>\<open>hide()\<close> does not restore what \<^verbatim>\<open>show()\<close> found: it puts the target
  element into the hidden markup (class \<^verbatim>\<open>hidden\<close> and not \<^verbatim>\<open>flex\<close>,
  \<^verbatim>\<open>aria-hidden="true"\<close>, neither \<^verbatim>\<open>aria-modal\<close> nor \<^verbatim>\<open>role\<close>) and removes the first
  element of the document that carries \<^verbatim>\<open>modal-backdrop\<close>. So: for every hidden modal
  whose target element is an element of the page other than \<^verbatim>\<open>document.body\<close> and has
  the hidden markup, whose backdrop classes are valid tokens, in a document with no
  \<^verbatim>\<open>modal-backdrop\<close> element, \<^verbatim>\<open>show()\<close> and then \<^verbatim>\<open>hide()\<close> both return, and
  afterwards the target element has the same set of classes as before (in the token list
  \<^verbatim>\<open>hidden\<close> has moved to the end), the same attributes, and the document has no
  \<^verbatim>\<open>modal-backdrop\<close> element.
\<close>

theorem show_then_hide_restores_hidden_markup:
  assumes hid: "f_isHidden m"
    and tokens: "token_error (split_space (backdropClasses (f_options m))) = None"
    and nb: "f_targetEl m \<noteq> body e" and old: "f_targetEl m < next_ref e"
    and cls: "''hidden'' \<in> set (classList (elems e (f_targetEl m)))"
             "''flex'' \<notin> set (classList (elems e (f_targetEl m)))"
    and attrs: "attributes (elems e (f_targetEl m)) ''aria-hidden'' = Some ''true''"
               "attributes (elems e (f_targetEl m)) ''aria-modal'' = None"
               "attributes (elems e (f_targetEl m)) ''role'' = None"
    and nobd: "backdrops e = []"
  shows "\<exists>m1 e1 m2 e2.
      Modal_show (m, e) = Inr (m1, e1) \<and> Modal_hide (m1, e1) = Inr (m2, e2)
    \<and> f_isHidden m2
    \<and> set (classList (elems e2 (f_targetEl m))) = set (classList (elems e (f_targetEl m)))
    \<and> classList (elems e2 (f_targetEl m)) =
        removeAll ''hidden'' (classList (elems e (f_targetEl m))) @ [''hidden'']
    \<and> attributes (elems e2 (f_targetEl m)) = attributes (elems e (f_targetEl m))
    \<and> backdrops e2 = []"
proof -
  from show_succeeds [of m e] tokens obtain m1 e1 where
    s1: "Modal_show (m, e) = Inr (m1, e1)" by auto
  note f1 = show_modal_facts [OF s1]
  from f1(7) hid nobd have b1: "backdrops e1 = [next_ref e]" by simp
  with hide_succeeds [of m1 e1] obtain m2 e2 where
    s2: "Modal_hide (m1, e1) = Inr (m2, e2)" by auto
  note f2 = hide_modal_facts [OF s2]
  from old have fresh: "f_targetEl m \<noteq> next_ref e" by simp
  note t = show_then_hide_target [OF s1 s2 nb fresh]
  have c: "classList (elems e2 (f_targetEl m)) =
        removeAll ''hidden'' (classList (elems e (f_targetEl m))) @ [''hidden'']"
    using cls(2) by (simp add: t(1) show_then_hide_classList)
  have a: "attributes (elems e2 (f_targetEl m)) = attributes (elems e (f_targetEl m))"
    using attrs by (auto simp add: t(2) show_then_hide_attributes fun_eq_iff)
  have "set (classList (elems e2 (f_targetEl m))) = set (classList (elems e (f_targetEl m)))"
    using cls(1) by (auto simp add: c)
  moreover have "backdrops e2 = []" using f2(7) f1(1) b1 by simp
  moreover have "f_isHidden m2" using f2(1) by simp
  ultimately show ?thesis using s1 s2 c a by blast
qed

theorem show_then_hide_restores_hidden_markup_witness:
  "\<exists>m1 e1 m2 e2.
      Modal_show (dialog, dialog_page) = Inr (m1, e1) \<and> Modal_hide (m1, e1) = Inr (m2, e2)
    \<and> classList (elems dialog_page 0) = [''hidden'', ''justify-center'', ''items-center'']
    \<and> classList (elems e2 0) = [''justify-center'', ''items-center'', ''hidden'']
    \<and> attributes (elems e2 0) = attributes (elems dialog_page 0)
    \<and> backdrops e2 = []"
proof -
  have "\<exists>m1 e1 m2 e2.
      Modal_show (dialog, dialog_page) = Inr (m1, e1) \<and> Modal_hide (m1, e1) = Inr (m2, e2)
    \<and> f_isHidden m2
    \<and> set (classList (elems e2 (f_targetEl dialog))) =
        set (classList (elems dialog_page (f_targetEl dialog)))
    \<and> classList (elems e2 (f_targetEl dialog)) =
        removeAll ''hidden'' (classList (elems dialog_page (f_targetEl dialog))) @ [''hidden'']
    \<and> attributes (elems e2 (f_targetEl dialog)) =
        attributes (elems dialog_page (f_targetEl dialog))
    \<and> backdrops e2 = []"
    by (rule show_then_hide_restores_hidden_markup) (simp_all add: default_tokens_ok)
  then show ?thesis by auto
qed

text \<open>
  C3 as stated fails on \<^verbatim>\<open>bare_page\<close>: the dialog element has the class list
  \<^verbatim>\<open>fixed justify-center items-center\<close> and no \<^verbatim>\<open>aria-hidden\<close> attribute, and after
  \<^verbatim>\<open>show()\<close> and \<^verbatim>\<open>hide()\<close> it has the class \<^verbatim>\<open>hidden\<close> as well and the attribute
  \<^verbatim>\<open>aria-hidden="true"\<close>; the backdrop that was in the document (node 9) is the one
  removed, and the modal's own (node 20) stays.
\<close>

theorem show_then_hide_changes_bare_markup:
  "\<not> isl (show_then_hide (dialog, bare_page))
   \<and> classList (elems bare_page 0) = [''fixed'', ''justify-center'', ''items-center'']
   \<and> classList (elems (snd (projr (show_then_hide (dialog, bare_page)))) 0) = [''fixed'', ''justify-center'', ''items-center'', ''hidden'']
   \<and> attributes (elems bare_page 0) ''aria-hidden'' = None
   \<and> attributes (elems (snd (projr (show_then_hide (dialog, bare_page)))) 0) ''aria-hidden'' = Some ''true''
   \<and> backdrops (snd (projr (show_then_hide (dialog, bare_page)))) = [20]"
proof -
  have tok: "token_error (split_space (backdropClasses (f_options dialog))) = None"
    by (simp add: default_tokens_ok)
  from show_succeeds [of dialog bare_page] tok obtain m1 e1 where
    s1: "Modal_show (dialog, bare_page) = Inr (m1, e1)" by auto
  note f1 = show_modal_facts [OF s1]
  from f1(7) have b1: "backdrops e1 = [9, 20]" by simp
  with hide_succeeds [of m1 e1] obtain m2 e2 where
    s2: "Modal_hide (m1, e1) = Inr (m2, e2)" by auto
  note f2 = hide_modal_facts [OF s2]
  have sth: "show_then_hide (dialog, bare_page) = Inr (m2, e2)"
    by (simp add: show_then_hide_def s1 s2)
  have nb: "f_targetEl dialog \<noteq> body bare_page" and fresh: "f_targetEl dialog \<noteq> next_ref bare_page"
    by simp_all
  note t = show_then_hide_target [OF s1 s2 nb fresh]
  have "classList (elems e2 0) = [''fixed'', ''justify-center'', ''items-center'', ''hidden'']"
    using t(1) by (simp add: show_then_hide_classList)
  moreover have "attributes (elems e2 0) ''aria-hidden'' = Some ''true''"
    using t(2) by (simp add: show_then_hide_attributes)
  moreover have "backdrops e2 = [20]" using f2(7) f1(1) b1 by simp
  moreover have "classList (elems bare_page 0) = [''fixed'', ''justify-center'', ''items-center'']"
    "attributes (elems bare_page 0) ''aria-hidden'' = None"
    by simp_all
  ultimately show ?thesis by (simp add: sth)
qed

subsection \<open>C4: toggle\<close>

text \<open>
  C4, as amended. For every instance, with callbacks that return and leave the modal
  alone, and every call of \<^verbatim>\<open>toggle()\<close> that returns: a hidden modal is passed to
  \<^verbatim>\<open>show()\<close>, any other to \<^verbatim>\<open>hide()\<close>, and then \<^verbatim>\<open>onToggle\<close> is called; the call has
  invoked \<^verbatim>\<open>onToggle\<close> exactly once, the callback of its direction once and the other
  one not at all, and has flipped the state. The call returns exactly when \<^verbatim>\<open>show()\<close>
  or \<^verbatim>\<open>hide()\<close> does not throw: for a hidden modal when the backdrop classes, split at
  single spaces, are valid class tokens; for a visible modal when the document has an
  element with the attribute \<^verbatim>\<open>modal-backdrop\<close>.
\<close>

theorem toggle_dispatch_onToggle_once:
  "Modal_toggle (m, e) =
     (case (if f_isHidden m then Modal_show (m, e) else Modal_hide (m, e)) of
        Inl err \<Rightarrow> Inl err
      | Inr (m', e') \<Rightarrow> Inr (m', invoke OnToggle (onToggle (f_options m)) e'))
   \<and> (\<forall>m' e'. Modal_toggle (m, e) = Inr (m', e') \<longrightarrow>
          invocations OnToggle e' = Suc (invocations OnToggle e)
        \<and> invocations OnShow e' =
            (if f_isHidden m then Suc (invocations OnShow e) else invocations OnShow e)
        \<and> invocations OnHide e' =
            (if f_isHidden m then invocations OnHide e else Suc (invocations OnHide e))
        \<and> f_isHidden m' = (\<not> f_isHidden m))
   \<and> ((\<exists>s'. Modal_toggle (m, e) = Inr s') =
        (if f_isHidden m then token_error (split_space (backdropClasses (f_options m))) = None
         else backdrops e \<noteq> []))"
proof -
  have dispatch: "Modal_toggle (m, e) =
     (case (if f_isHidden m then Modal_show (m, e) else Modal_hide (m, e)) of
        Inl err \<Rightarrow> Inl err
      | Inr (m', e') \<Rightarrow> Inr (m', invoke OnToggle (onToggle (f_options m)) e'))"
    by (rule Modal_toggle_eq)
  have once: "invocations OnToggle e' = Suc (invocations OnToggle e)
        \<and> invocations OnShow e' =
            (if f_isHidden m then Suc (invocations OnShow e) else invocations OnShow e)
        \<and> invocations OnHide e' =
            (if f_isHidden m then invocations OnHide e else Suc (invocations OnHide e))
        \<and> f_isHidden m' = (\<not> f_isHidden m)"
    if t: "Modal_toggle (m, e) = Inr (m', e')" for m' e'
  proof (cases "f_isHidden m")
    case True
    with t obtain e1 where s: "Modal_show (m, e) = Inr (m', e1)"
      and e': "e' = invoke OnToggle (onToggle (f_options m)) e1"
      by (auto simp add: Modal_toggle_eq split: sum.splits)
    from show_modal_facts(1,5) [OF s] True e' show ?thesis
      by (simp add: invocations_def)
  next
    case False
    with t obtain e1 where s: "Modal_hide (m, e) = Inr (m', e1)"
      and e': "e' = invoke OnToggle (onToggle (f_options m)) e1"
      by (auto simp add: Modal_toggle_eq split: sum.splits)
    from hide_modal_facts(1,5) [OF s] False e' show ?thesis
      by (simp add: invocations_def)
  qed
  have returns: "(\<exists>s'. Modal_toggle (m, e) = Inr s') =
        (if f_isHidden m then token_error (split_space (backdropClasses (f_options m))) = None
         else backdrops e \<noteq> [])"
  proof (cases "f_isHidden m")
    case True
    have "(\<exists>s'. Modal_toggle (m, e) = Inr s') = (\<exists>s'. Modal_show (m, e) = Inr s')"
      using True by (auto simp add: Modal_toggle_eq split: sum.splits)
    with True show_succeeds [of m e] show ?thesis by simp
  next
    case False
    have "(\<exists>s'. Modal_toggle (m, e) = Inr s') = (\<exists>s'. Modal_hide (m, e) = Inr s')"
      using False by (auto simp add: Modal_toggle_eq split: sum.splits)
    with False hide_succeeds [of m e] show ?thesis by simp
  qed
  from dispatch once returns show ?thesis by blast
qed

theorem toggle_dispatch_onToggle_once_witness:
  "\<exists>m' e'. Modal_toggle (dialog, dialog_page) = Inr (m', e')
     \<and> invocations OnToggle e' = 1 \<and> invocations OnShow e' = 1 \<and> invocations OnHide e' = 0
     \<and> \<not> f_isHidden m'"
proof -
  note th = toggle_dispatch_onToggle_once [of dialog dialog_page]
  from th [THEN conjunct2, THEN conjunct2]
  have "\<exists>s'. Modal_toggle (dialog, dialog_page) = Inr s'"
    by (simp add: default_tokens_ok)
  then obtain m' e' where t: "Modal_toggle (dialog, dialog_page) = Inr (m', e')" by auto
  have "invocations OnToggle dialog_page = 0" "invocations OnShow dialog_page = 0"
    "invocations OnHide dialog_page = 0"
    by (simp_all add: invocations_def)
  with th [THEN conjunct2, THEN conjunct1] t show ?thesis by simp
qed

text \<open>
  C4 as stated fails for a call that throws. The instance made with
  \<^verbatim>\<open>backdropClasses: 'bg-black '\<close> is hidden; its backdrop classes split into
  \<^verbatim>\<open>bg-black\<close> and the empty text, which \<^verbatim>\<open>classList.add\<close> refuses with a SyntaxError.
  So \<^verbatim>\<open>show()\<close> throws, and \<^verbatim>\<open>toggle()\<close> with it, before the line that calls
  \<^verbatim>\<open>onToggle\<close> is reached.
\<close>

theorem toggle_throws_before_onToggle:
  "Modal_constructor page (Some 0) (Some spaced_options) = Inr (spaced_dialog, dialog_page)
   \<and> f_isHidden spaced_dialog
   \<and> split_space (backdropClasses (f_options spaced_dialog)) = [''bg-black'', []]
   \<and> Modal_show (spaced_dialog, dialog_page) = Inl SyntaxError
   \<and> Modal_toggle (spaced_dialog, dialog_page) = Inl SyntaxError"
proof -
  have h: "f_isHidden spaced_dialog"
    and c: "backdropClasses (f_options spaced_dialog) = ''bg-black ''"
    by (simp_all add: spaced_dialog_def dialog_def)
  have t: "token_error (split_space (backdropClasses (f_options spaced_dialog))) = Some SyntaxError"
    unfolding c by (rule spaced_tokens(2))
  have p: "split_space (backdropClasses (f_options spaced_dialog)) = [''bg-black'', []]"
    unfolding c by (rule spaced_tokens(1))
  have s: "Modal_show (spaced_dialog, dialog_page) = Inl SyntaxError"
    by (simp add: Modal_show_eq2 createBackdrop_error [OF h t])
  have g: "Modal_toggle (spaced_dialog, dialog_page) = Inl SyntaxError"
    by (simp add: Modal_toggle_eq h s)
  from constructor_on_page_spaced h p s g show ?thesis by blast
qed

subsection \<open>C5: default options\<close>

text \<open>
  C5. For every options object passed to the constructor, every key that is absent
  takes the value of \<^verbatim>\<open>Default\<close> (\<^verbatim>\<open>placement\<close> is \<^verbatim>\<open>center\<close>, \<^verbatim>\<open>backdrop\<close> is
  \<^verbatim>\<open>dynamic\<close>, \<^verbatim>\<open>closable\<close> is true, \<^verbatim>\<open>backdropClasses\<close> is the default text, the
  three callbacks are the empty function) and every key that is present keeps the value
  passed; an instance that the constructor returns has exactly these options, and one
  constructed without an options argument has \<^verbatim>\<open>Default\<close>.
\<close>

theorem unset_options_fall_back_to_Default:
  "placement (spread Default p) = (case placement_key p of None \<Rightarrow> ''center'' | Some v \<Rightarrow> v)
   \<and> backdrop (spread Default p) = (case backdrop_key p of None \<Rightarrow> ''dynamic'' | Some v \<Rightarrow> v)
   \<and> closable (spread Default p) = (case closable_key p of None \<Rightarrow> True | Some v \<Rightarrow> v)
   \<and> backdropClasses (spread Default p) =
       (case backdropClasses_key p of
          None \<Rightarrow> ''bg-black bg-opacity-30 fixed inset-0 z-40'' | Some v \<Rightarrow> v)
   \<and> onShow (spread Default p) = (case onShow_key p of None \<Rightarrow> EmptyFn | Some v \<Rightarrow> v)
   \<and> onHide (spread Default p) = (case onHide_key p of None \<Rightarrow> EmptyFn | Some v \<Rightarrow> v)
   \<and> onToggle (spread Default p) = (case onToggle_key p of None \<Rightarrow> EmptyFn | Some v \<Rightarrow> v)
   \<and> (\<forall>e t m e'. Modal_constructor e (Some t) (Some p) = Inr (m, e') \<longrightarrow>
         f_options m = spread Default p)
   \<and> (\<forall>e t m e'. Modal_constructor e (Some t) None = Inr (m, e') \<longrightarrow> f_options m = Default)"
proof -
  have a: "f_options m = spread Default p"
    if "Modal_constructor e (Some t) (Some p) = Inr (m, e')" for e t m e'
    using constructor_facts(1) [OF that] by simp
  have b: "f_options m = Default"
    if "Modal_constructor e (Some t) None = Inr (m, e')" for e t m e'
    using constructor_facts(1) [OF that] by simp
  have c: "placement (spread Default p) = (case placement_key p of None \<Rightarrow> ''center'' | Some v \<Rightarrow> v)
   \<and> backdrop (spread Default p) = (case backdrop_key p of None \<Rightarrow> ''dynamic'' | Some v \<Rightarrow> v)
   \<and> closable (spread Default p) = (case closable_key p of None \<Rightarrow> True | Some v \<Rightarrow> v)
   \<and> backdropClasses (spread Default p) =
       (case backdropClasses_key p of
          None \<Rightarrow> ''bg-black bg-opacity-30 fixed inset-0 z-40'' | Some v \<Rightarrow> v)
   \<and> onShow (spread Default p) = (case onShow_key p of None \<Rightarrow> EmptyFn | Some v \<Rightarrow> v)
   \<and> onHide (spread Default p) = (case onHide_key p of None \<Rightarrow> EmptyFn | Some v \<Rightarrow> v)
   \<and> onToggle (spread Default p) = (case onToggle_key p of None \<Rightarrow> EmptyFn | Some v \<Rightarrow> v)"
    by (simp add: spread_def Default_def split: option.splits)
  from a b c show ?thesis by blast
qed

theorem unset_options_fall_back_to_Default_witness:
  "\<exists>m e' m2 e2.
     Modal_constructor page (Some 0) (Some (no_options\<lparr>placement_key := Some ''top-left''\<rparr>)) = Inr (m, e')
     \<and> placement (f_options m) = ''top-left'' \<and> backdrop (f_options m) = ''dynamic''
     \<and> closable (f_options m) \<and> onShow (f_options m) = EmptyFn
     \<and> Modal_constructor page (Some 0) None = Inr (m2, e2) \<and> f_options m2 = Default"
proof -
  let ?p = "no_options\<lparr>placement_key := Some ''top-left''\<rparr>"
  from constructor_on_page_top_left obtain m e' where
    c1: "Modal_constructor page (Some 0) (Some ?p) = Inr (m, e')" by blast
  from constructor_on_page obtain m2 e2 where
    c2: "Modal_constructor page (Some 0) None = Inr (m2, e2)" by blast
  note th = unset_options_fall_back_to_Default [of ?p]
  from th c1 have o: "f_options m = spread Default ?p" by blast
  from th c2 have o2: "f_options m2 = Default" by blast
  from th have "placement (spread Default ?p) = ''top-left''"
    "backdrop (spread Default ?p) = ''dynamic''" "closable (spread Default ?p)"
    "onShow (spread Default ?p) = EmptyFn"
    by (simp_all add: no_options_def)
  with o o2 c1 c2 show ?thesis by auto
qed


subsection \<open>C6: resizing\<close>

text \<open>
  C6. For every resize gesture on an instance with a resize target: after the mouse-down
  at which the target is rendered \<open>w\<close> by \<open>h\<close> pixels, any moves, and a move to the
  position \<open>(dx, dy)\<close> away from the mouse-down, the handlers have returned and the
  inline width of the target is \<open>max 200 (w + dx)\<close> pixels and its inline height
  \<open>max 100 (h + dy)\<close> pixels. Pixel positions and sizes are integers here.
\<close>

theorem resize_clamps_to_minimum:
  assumes rt: "f_resizeTargetEl m = Some rt"
  shows "\<exists>s1 m2 e2.
       onResizeMouseDown (m, e) down = Inr s1
     \<and> run_events onResizeMouseMove (moves @ [mv]) s1 = Inr (m2, e2)
     \<and> style (elems e2 rt) ''width'' =
         Some (string_of_int (max 200 (clientWidth (elems e rt) + (pageX mv - pageX down))) @ ''px'')
     \<and> style (elems e2 rt) ''height'' =
         Some (string_of_int (max 100 (clientHeight (elems e rt) + (pageY mv - pageY down))) @ ''px'')"
proof -
  let ?m1 = "m\<lparr>f_modalWidthBeforeResize := Some (clientWidth (elems e rt)),
                f_modalHeightBeforeResize := Some (clientHeight (elems e rt)),
                f_resizeMouseDownX := Some (pageX down),
                f_resizeMouseDownY := Some (pageY down)\<rparr>"
  let ?e1 = "e\<lparr>document_listeners :=
                     add_listener (''mouseup'', f_onResizeMouseUp m, True)
                       (add_listener (''mousemove'', f_onResizeMouseMove m, True)
                          (document_listeners e))\<rparr>"
  have d: "onResizeMouseDown (m, e) down = Inr (?m1, ?e1)"
    using rt by (simp add: onResizeMouseDown_def)
  have rt1: "f_resizeTargetEl ?m1 = Some rt" using rt by simp
  from resize_moves_keep_modal [OF rt1] obtain e' where
    ms: "run_events onResizeMouseMove moves (?m1, ?e1) = Inr (?m1, e')" by blast
  let ?e2 = "upd_elem rt (style_set ''maxWidth'' (Some ''100%''))
               (upd_elem rt (style_set ''height''
                  (px (Math_max (Some MinResizeHeight)
                     (num_add (f_modalHeightBeforeResize ?m1)
                        (num_sub (Some (pageY mv)) (f_resizeMouseDownY ?m1))))))
                  (upd_elem rt (style_set ''width''
                     (px (Math_max (Some MinResizeWidth)
                        (num_add (f_modalWidthBeforeResize ?m1)
                           (num_sub (Some (pageX mv)) (f_resizeMouseDownX ?m1)))))) e'))"
  have last: "run_events onResizeMouseMove (moves @ [mv]) (?m1, ?e1) = Inr (?m1, ?e2)"
    by (simp add: run_events_append ms resize_move_step [OF rt1])
  have w: "style (elems ?e2 rt) ''width'' =
         Some (string_of_int (max 200 (clientWidth (elems e rt) + (pageX mv - pageX down))) @ ''px'')"
    by (simp add: px_def Math_max_def num_add_def num_sub_def MinResizeWidth_def)
  have h: "style (elems ?e2 rt) ''height'' =
         Some (string_of_int (max 100 (clientHeight (elems e rt) + (pageY mv - pageY down))) @ ''px'')"
    by (simp add: px_def Math_max_def num_add_def num_sub_def MinResizeHeight_def)
  from d last w h show ?thesis by blast
qed

theorem resize_clamps_to_minimum_witness:
  "\<exists>s1 m2 e2 m3 e3.
       onResizeMouseDown (dialog, dialog_page) (mouse_at 500 300) = Inr s1
     \<and> run_events onResizeMouseMove [mouse_at 490 290, mouse_at 200 200] s1 = Inr (m2, e2)
     \<and> style (elems e2 3) ''width'' = Some ''200px''
     \<and> style (elems e2 3) ''height'' = Some ''100px''
     \<and> run_events onResizeMouseMove [mouse_at 450 280] s1 = Inr (m3, e3)
     \<and> style (elems e3 3) ''width'' = Some ''350px''
     \<and> style (elems e3 3) ''height'' = Some ''100px''"
proof -
  have rt: "f_resizeTargetEl dialog = Some 3" by simp
  have sz: "clientWidth (elems dialog_page 3) = 400" "clientHeight (elems dialog_page 3) = 120"
    by simp_all
  from resize_clamps_to_minimum [OF rt, of dialog_page "mouse_at 500 300" "[mouse_at 490 290]" "mouse_at 200 200"]
  obtain s1 m2 e2 where
    a: "onResizeMouseDown (dialog, dialog_page) (mouse_at 500 300) = Inr s1"
    "run_events onResizeMouseMove [mouse_at 490 290, mouse_at 200 200] s1 = Inr (m2, e2)"
    "style (elems e2 3) ''width'' = Some ''200px''"
    "style (elems e2 3) ''height'' = Some ''100px''"
    by (auto simp add: sz mouse_at_def string_of_int_examples)
  from resize_clamps_to_minimum [OF rt, of dialog_page "mouse_at 500 300" "[]" "mouse_at 450 280"] a(1)
  obtain m3 e3 where
    "run_events onResizeMouseMove [mouse_at 450 280] s1 = Inr (m3, e3)"
    "style (elems e3 3) ''width'' = Some ''350px''"
    "style (elems e3 3) ''height'' = Some ''100px''"
    by (auto simp add: sz mouse_at_def string_of_int_examples)
  with a show ?thesis by blast
qed

subsection \<open>C7: dragging\<close>

text \<open>
  C7. For every instance with a drag target whose drag position is defined (the
  constructor sets it to 0, 0) and two consecutive drag gestures that start outside links
  and buttons: the first gesture returns with the target translated to some
  \<open>(x1, y1)\<close>, which mouse-up makes the baseline; in the second gesture, after any moves
  and a move to the position \<open>(dx2, dy2)\<close> away from its mouse-down, the target is
  translated to \<open>(x1 + dx2, y1 + dy2)\<close>.
\<close>

theorem drag_translation_accumulates:
  assumes dt: "f_dragTargetEl m = Some dt"
    and ctl: "closest_a_button down1 = None" "closest_a_button down2 = None"
    and cur: "f_currentDragX m = Some cx" "f_currentDragY m = Some cy"
    and base: "f_dragXBeforeDragging m = Some bx" "f_dragYBeforeDragging m = Some by"
  shows "\<exists>m1 e1 x1 y1 s2 m3 e3.
       drag_gesture down1 moves1 up1 (m, e) = Inr (m1, e1)
     \<and> f_currentDragX m1 = Some x1 \<and> f_currentDragY m1 = Some y1
     \<and> (moves1 \<noteq> [] \<longrightarrow> style (elems e1 dt) ''transform'' = translate (Some x1) (Some y1))
     \<and> f_dragXBeforeDragging m1 = Some x1 \<and> f_dragYBeforeDragging m1 = Some y1
     \<and> onDragMouseDown (m1, e1) down2 = Inr s2
     \<and> run_events onDragMouseMove (moves2 @ [mv]) s2 = Inr (m3, e3)
     \<and> f_currentDragX m3 = Some (x1 + (pageX mv - pageX down2))
     \<and> f_currentDragY m3 = Some (y1 + (pageY mv - pageY down2))
     \<and> style (elems e3 dt) ''transform'' =
         translate (Some (x1 + (pageX mv - pageX down2))) (Some (y1 + (pageY mv - pageY down2)))"
proof -
  \<comment> \<open>the first gesture\<close>
  let ?ma = "m\<lparr>f_dragMouseDownX := Some (pageX down1), f_dragMouseDownY := Some (pageY down1)\<rparr>"
  obtain ea where d1: "onDragMouseDown (m, e) down1 = Inr (?ma, ea)"
    using ctl(1) by (simp add: onDragMouseDown_def)
  have pa: "f_dragTargetEl ?ma = Some dt"
    "f_dragXBeforeDragging ?ma = Some bx" "f_dragYBeforeDragging ?ma = Some by"
    "f_dragMouseDownX ?ma = Some (pageX down1)" "f_dragMouseDownY ?ma = Some (pageY down1)"
    using dt base by simp_all
  from drag_moves [OF pa, of moves1 ea] obtain mb eb where
    r1: "run_events onDragMouseMove moves1 (?ma, ea) = Inr (mb, eb)"
    and kb: "f_dragTargetEl mb = Some dt"
    and nb: "moves1 = [] \<longrightarrow> mb = ?ma \<and> eb = ea"
    and cb: "moves1 \<noteq> [] \<longrightarrow>
          f_currentDragX mb = Some (bx + (pageX (last moves1) - pageX down1))
        \<and> f_currentDragY mb = Some (by + (pageY (last moves1) - pageY down1))
        \<and> style (elems eb dt) ''transform'' =
            translate (Some (bx + (pageX (last moves1) - pageX down1)))
              (Some (by + (pageY (last moves1) - pageY down1)))"
    by blast
  obtain x1 y1 where xy: "f_currentDragX mb = Some x1" "f_currentDragY mb = Some y1"
    and tr: "moves1 \<noteq> [] \<longrightarrow> style (elems eb dt) ''transform'' = translate (Some x1) (Some y1)"
  proof (cases "moves1 = []")
    case True
    with nb cur have "f_currentDragX mb = Some cx" "f_currentDragY mb = Some cy" by simp_all
    with True that show ?thesis by blast
  next
    case False
    with cb that show ?thesis by blast
  qed
  let ?m1 = "mb\<lparr>f_dragXBeforeDragging := f_currentDragX mb,
                 f_dragYBeforeDragging := f_currentDragY mb\<rparr>"
  obtain e1 where u1: "onDragMouseUp (mb, eb) up1 = Inr (?m1, e1)"
    and el1: "elems e1 = elems eb"
    by (simp add: onDragMouseUp_def)
  have g1: "drag_gesture down1 moves1 up1 (m, e) = Inr (?m1, e1)"
    by (simp add: drag_gesture_def d1 r1 u1)
  \<comment> \<open>the second gesture\<close>
  let ?mc = "?m1\<lparr>f_dragMouseDownX := Some (pageX down2), f_dragMouseDownY := Some (pageY down2)\<rparr>"
  obtain ec where d2: "onDragMouseDown (?m1, e1) down2 = Inr (?mc, ec)"
    using ctl(2) by (simp add: onDragMouseDown_def)
  have pc: "f_dragTargetEl ?mc = Some dt"
    "f_dragXBeforeDragging ?mc = Some x1" "f_dragYBeforeDragging ?mc = Some y1"
    "f_dragMouseDownX ?mc = Some (pageX down2)" "f_dragMouseDownY ?mc = Some (pageY down2)"
    using kb xy by simp_all
  from drag_moves [OF pc, of "moves2 @ [mv]" ec] obtain m3 e3 where
    r2: "run_events onDragMouseMove (moves2 @ [mv]) (?mc, ec) = Inr (m3, e3)"
    and c3: "f_currentDragX m3 = Some (x1 + (pageX mv - pageX down2))"
      "f_currentDragY m3 = Some (y1 + (pageY mv - pageY down2))"
      "style (elems e3 dt) ''transform'' =
         translate (Some (x1 + (pageX mv - pageX down2))) (Some (y1 + (pageY mv - pageY down2)))"
    by auto
  have "f_currentDragX ?m1 = Some x1" "f_currentDragY ?m1 = Some y1"
    "f_dragXBeforeDragging ?m1 = Some x1" "f_dragYBeforeDragging ?m1 = Some y1"
    using xy by simp_all
  moreover have "moves1 \<noteq> [] \<longrightarrow> style (elems e1 dt) ''transform'' = translate (Some x1) (Some y1)"
    using tr el1 by simp
  ultimately show ?thesis using g1 d2 r2 c3 by blast
qed

theorem drag_translation_accumulates_witness:
  "\<exists>m1 e1 s2 m3 e3.
       drag_gesture (mouse_at 10 10) [mouse_at 20 30, mouse_at 40 50] (mouse_at 40 50)
         (dialog, dialog_page) = Inr (m1, e1)
     \<and> f_currentDragX m1 = Some 30 \<and> f_currentDragY m1 = Some 40
     \<and> style (elems e1 3) ''transform'' = Some ''translate(30px, 40px)''
     \<and> onDragMouseDown (m1, e1) (mouse_at 100 100) = Inr s2
     \<and> run_events onDragMouseMove [mouse_at 110 95] s2 = Inr (m3, e3)
     \<and> f_currentDragX m3 = Some 40 \<and> f_currentDragY m3 = Some 35
     \<and> style (elems e3 3) ''transform'' = Some ''translate(40px, 35px)''"
proof -
  have dt: "f_dragTargetEl dialog = Some 3"
    and cur: "f_currentDragX dialog = Some 0" "f_currentDragY dialog = Some 0"
    and base: "f_dragXBeforeDragging dialog = Some 0" "f_dragYBeforeDragging dialog = Some 0"
    by simp_all
  have ctl: "closest_a_button (mouse_at 10 10) = None" "closest_a_button (mouse_at 100 100) = None"
    by (simp_all add: mouse_at_def)
  from drag_translation_accumulates [OF dt ctl cur base,
      of "[mouse_at 20 30, mouse_at 40 50]" "mouse_at 40 50" dialog_page "[]" "mouse_at 110 95"]
  obtain m1 e1 x1 y1 s2 m3 e3 where
    g: "drag_gesture (mouse_at 10 10) [mouse_at 20 30, mouse_at 40 50] (mouse_at 40 50)
         (dialog, dialog_page) = Inr (m1, e1)"
    and x: "f_currentDragX m1 = Some x1" "f_currentDragY m1 = Some y1"
    and t1: "style (elems e1 3) ''transform'' = translate (Some x1) (Some y1)"
    and d: "onDragMouseDown (m1, e1) (mouse_at 100 100) = Inr s2"
    and r: "run_events onDragMouseMove [mouse_at 110 95] s2 = Inr (m3, e3)"
    and c: "f_currentDragX m3 = Some (x1 + (pageX (mouse_at 110 95) - pageX (mouse_at 100 100)))"
       "f_currentDragY m3 = Some (y1 + (pageY (mouse_at 110 95) - pageY (mouse_at 100 100)))"
    and t3: "style (elems e3 3) ''transform'' =
         translate (Some (x1 + (pageX (mouse_at 110 95) - pageX (mouse_at 100 100))))
           (Some (y1 + (pageY (mouse_at 110 95) - pageY (mouse_at 100 100))))"
    by auto
  have first: "f_currentDragX m1 = Some 30 \<and> f_currentDragY m1 = Some 40"
    using g
    by (auto simp add: drag_gesture_def onDragMouseDown_def onDragMouseMove_def onDragMouseUp_def
        mouse_at_def dialog_def Let_def num_add_def num_sub_def)
  with x have xy: "x1 = 30" "y1 = 40" by simp_all
  have "style (elems e1 3) ''transform'' = Some ''translate(30px, 40px)''"
    using t1 by (simp add: xy translate_def string_of_int_examples)
  moreover have "style (elems e3 3) ''transform'' = Some ''translate(40px, 35px)''"
    using t3 by (simp add: xy translate_def mouse_at_def string_of_int_examples)
  moreover have "f_currentDragX m3 = Some 40" "f_currentDragY m3 = Some 35"
    using c by (simp_all add: xy mouse_at_def)
  ultimately show ?thesis using g first d r by blast
qed

subsection \<open>C8: dismissal by a mouse-up outside the dialog\<close>




subsection \<open>C9: placement classes\<close>

text \<open>
  C9. For every text as \<^verbatim>\<open>placement\<close>, \<^verbatim>\<open>_getPlacementClasses\<close> returns one of the nine
  pairs of classes, a list of two; for a text that is none of the nine positions it
  returns the centre pair; and an instance that the constructor returns has had exactly
  the two classes of its pair added to the class list of its target element.
\<close>

theorem placement_classes:
  "Modal_getPlacementClasses m \<in> set placement_pairs
   \<and> length (Modal_getPlacementClasses m) = 2
   \<and> (placement (f_options m) \<notin> set compass_positions \<longrightarrow>
        Modal_getPlacementClasses m = [''justify-center'', ''items-center''])
   \<and> (\<forall>e t opts m' e'. Modal_constructor e (Some t) opts = Inr (m', e') \<longrightarrow>
        (\<exists>c1 c2. Modal_getPlacementClasses m' = [c1, c2]
           \<and> classList (elems e' t) = classList (classList_add c2 (classList_add c1 (elems e t)))
           \<and> set (classList (elems e' t)) = set (classList (elems e t)) \<union> {c1, c2}))"
proof -
  have a: "Modal_getPlacementClasses m \<in> set placement_pairs" for m
    by (simp add: Modal_getPlacementClasses_def placement_pairs_def Let_def)
  have b: "length (Modal_getPlacementClasses m) = 2" for m
    by (simp add: Modal_getPlacementClasses_def Let_def)
  have c: "placement (f_options m) \<notin> set compass_positions \<longrightarrow>
        Modal_getPlacementClasses m = [''justify-center'', ''items-center'']"
    by (simp add: Modal_getPlacementClasses_def compass_positions_def Let_def)
  have d: "\<exists>c1 c2. Modal_getPlacementClasses m' = [c1, c2]
           \<and> classList (elems e' t) = classList (classList_add c2 (classList_add c1 (elems e t)))
           \<and> set (classList (elems e' t)) = set (classList (elems e t)) \<union> {c1, c2}"
    if k: "Modal_constructor e (Some t) opts = Inr (m', e')" for e t opts m' e'
  proof -
    from b [of m'] obtain c1 c2 where p: "Modal_getPlacementClasses m' = [c1, c2]"
      by (cases "Modal_getPlacementClasses m'" rule: list.exhaust; simp;
          cases "tl (Modal_getPlacementClasses m')"; simp)
    from constructor_facts(4) [OF k] p
    have cl: "classList (elems e' t) = classList (classList_add c2 (classList_add c1 (elems e t)))"
      by simp
    then have "set (classList (elems e' t)) = set (classList (elems e t)) \<union> {c1, c2}"
      by auto
    with p cl show ?thesis by blast
  qed
  from a b c d show ?thesis by blast
qed

theorem placement_classes_witness:
  "Modal_getPlacementClasses (dialog\<lparr>f_options := Default\<lparr>placement := ''middle''\<rparr>\<rparr>) =
     [''justify-center'', ''items-center'']
   \<and> (\<exists>m' e'. Modal_constructor page (Some 0)
                  (Some (no_options\<lparr>placement_key := Some ''top-left''\<rparr>)) = Inr (m', e')
         \<and> Modal_getPlacementClasses m' = [''justify-start'', ''items-start'']
         \<and> classList (elems e' 0) = [''hidden'', ''justify-start'', ''items-start''])"
proof -
  let ?m = "dialog\<lparr>f_options := Default\<lparr>placement := ''middle''\<rparr>\<rparr>"
  let ?p = "no_options\<lparr>placement_key := Some ''top-left''\<rparr>"
  have "placement (f_options ?m) \<notin> set compass_positions"
    by (simp add: compass_positions_def)
  with placement_classes [of ?m]
  have a: "Modal_getPlacementClasses ?m = [''justify-center'', ''items-center'']" by blast
  from constructor_on_page_top_left obtain m' e' where
    k: "Modal_constructor page (Some 0) (Some ?p) = Inr (m', e')" by blast
  from constructor_facts(1) [OF k]
  have g: "Modal_getPlacementClasses m' = [''justify-start'', ''items-start'']"
    by (simp add: Modal_getPlacementClasses_def spread_def no_options_def)
  from placement_classes [of ?m] k obtain c1 c2 where
    "Modal_getPlacementClasses m' = [c1, c2]"
    "classList (elems e' 0) = classList (classList_add c2 (classList_add c1 (elems page 0)))"
    by blast
  with g have "classList (elems e' 0) = [''hidden'', ''justify-start'', ''items-start'']"
    by (simp add: page_def blank_element_def)
  with a k g show ?thesis by blast
qed

subsection \<open>C10: the registry of instances\<close>

text \<open>
  C10. \<^verbatim>\<open>getModalInstance(id, instances)\<close> returns \<^verbatim>\<open>null\<close> when no entry of the list
  has the id, and otherwise the first entry that has it. In every state that
  \<^verbatim>\<open>initModals\<close> passes through, and in the one it returns, no two entries of
  \<^verbatim>\<open>modalInstances\<close> have the same id; a \<^verbatim>\<open>data-modal-target\<close> or
  \<^verbatim>\<open>data-modal-toggle\<close> trigger whose id is registered already leaves the list as it is
  and constructs no Modal.
\<close>

theorem modal_registry_has_distinct_ids:
  "(i \<notin> set (map mi_id instances) \<longrightarrow> getModalInstance i instances = None)
   \<and> (\<forall>before inst rest.
        instances = before @ inst # rest \<and> mi_id inst = i \<and> i \<notin> set (map mi_id before) \<longrightarrow>
        getModalInstance i instances = Some inst)
   \<and> (\<forall>n1 n2 n3 n4 registered e'.
        initModals_upto n1 n2 n3 n4 e = Inr (registered, e') \<longrightarrow> distinct (map mi_id registered))
   \<and> (\<forall>registered e'. initModals e = Inr (registered, e') \<longrightarrow> distinct (map mi_id registered))
   \<and> (\<forall>triggerEl inst.
        getModalInstance (getAttribute e triggerEl ''data-modal-target'') instances = Some inst
        \<and> getElementById e (js_string (getAttribute e triggerEl ''data-modal-target'')) \<noteq> None \<longrightarrow>
        target_step triggerEl (instances, e) = Inr (instances, e))
   \<and> (\<forall>triggerEl inst.
        getModalInstance (getAttribute e triggerEl ''data-modal-toggle'') instances = Some inst
        \<and> getElementById e (js_string (getAttribute e triggerEl ''data-modal-toggle'')) \<noteq> None \<longrightarrow>
        toggle_step triggerEl (instances, e) = Inr (instances, add_click_listener triggerEl e))"
proof -
  have a: "i \<notin> set (map mi_id instances) \<longrightarrow> getModalInstance i instances = None"
    by (simp add: getModalInstance_None)
  have b: "getModalInstance i instances = Some inst"
    if "instances = before @ inst # rest \<and> mi_id inst = i \<and> i \<notin> set (map mi_id before)"
    for before inst rest
    using that getModalInstance_first by blast
  have c: "distinct (map mi_id registered)"
    if "initModals_upto n1 n2 n3 n4 e = Inr (registered, e')" for n1 n2 n3 n4 registered e'
    using initModals_upto_distinct [OF that] by (simp add: distinct_ids_def)
  have d: "distinct (map mi_id registered)"
    if "initModals e = Inr (registered, e')" for registered e'
    using that c by (simp add: initModals_is_upto)
  have f: "target_step triggerEl (instances, e) = Inr (instances, e)"
    if "getModalInstance (getAttribute e triggerEl ''data-modal-target'') instances = Some inst
        \<and> getElementById e (js_string (getAttribute e triggerEl ''data-modal-target'')) \<noteq> None"
    for triggerEl inst
    using that registered_id_reuses(1) by blast
  have g: "toggle_step triggerEl (instances, e) = Inr (instances, add_click_listener triggerEl e)"
    if "getModalInstance (getAttribute e triggerEl ''data-modal-toggle'') instances = Some inst
        \<and> getElementById e (js_string (getAttribute e triggerEl ''data-modal-toggle'')) \<noteq> None"
    for triggerEl inst
    using that registered_id_reuses(2) by blast
  from a b c d f g show ?thesis by blast
qed

theorem modal_registry_has_distinct_ids_witness:
  "\<exists>inst e'. initModals page = Inr ([inst], e') \<and> mi_id inst = Some ''dlg''
     \<and> distinct (map mi_id [inst])
     \<and> getModalInstance (Some ''other'') [inst] = None
     \<and> getModalInstance (Some ''dlg'') [inst] = Some inst"
proof -
  from initModals_on_page obtain registered e' where
    r: "initModals page = Inr (registered, e')"
    and ids: "map mi_id registered = [Some ''dlg'']"
    by (cases "initModals page") auto
  from ids obtain inst where one: "registered = [inst]" and i: "mi_id inst = Some ''dlg''"
    by auto
  note th = modal_registry_has_distinct_ids
  from th [of "Some ''other''" "[inst]" page] r one
  have d: "distinct (map mi_id [inst])" by blast
  from th [of "Some ''other''" "[inst]" page] i
  have n: "getModalInstance (Some ''other'') [inst] = None" by simp
  from th [of "Some ''dlg''" "[inst]" page, THEN conjunct2, THEN conjunct1,
      rule_format, of "[]" inst "[]"] i
  have f: "getModalInstance (Some ''dlg'') [inst] = Some inst" by simp
  from r one i d n f show ?thesis by blast
qed

end
